theory Spec2Isabelle
  imports Complex_Main "HOL-Library.Sublist"
begin

section \<open>Exceptions and results\<close>

text \<open>
  The program is a Python script (\<^verbatim>\<open>autolysis.py\<close>) built around one class,
  \<^verbatim>\<open>DataAnalyzer\<close>.  A Python exception is a value of the type \<open>exn\<close>; a call
  that may raise returns \<open>exn + 'a\<close>, with \<open>Inl\<close> for the exception.  Only the
  exception classes the program distinguishes have constructors of their own: the two
  classes caught by the ingestion loop, \<^verbatim>\<open>ValueError\<close> (raised by the ingestion
  loop), \<^verbatim>\<open>TypeError\<close> (raised by \<^verbatim>\<open>str.join\<close> on an item that is
  not a string), \<^verbatim>\<open>requests.RequestException\<close> (caught by the narration stage) and
  \<^verbatim>\<open>tenacity.RetryError\<close>.  \<open>Exception\<close> stands for every other subclass of
  Python's \<^verbatim>\<open>Exception\<close>.
\<close>

datatype exn =
    UnicodeDecodeError string
  | ParserError string
  | ValueError string
  | TypeError string
  | RequestException string
  | RetryError
  | Exception string

fun str_exn :: "exn \<Rightarrow> string" where
  "str_exn (UnicodeDecodeError m) = m"
| "str_exn (ParserError m) = m"
| "str_exn (ValueError m) = m"
| "str_exn (TypeError m) = m"
| "str_exn (RequestException m) = m"
| "str_exn RetryError = ''RetryError''"
| "str_exn (Exception m) = m"

section \<open>Strings\<close>

text \<open>\<^verbatim>\<open>str(n)\<close> for a natural number: its decimal digits.\<close>

definition digit_char :: "nat \<Rightarrow> char" where
  "digit_char d = ''0123456789'' ! d"

fun show_nat :: "nat \<Rightarrow> string" where
  "show_nat n = (if n < 10 then [digit_char n] else show_nat (n div 10) @ [digit_char (n mod 10)])"

section \<open>Ingestion: \<^verbatim>\<open>_read_csv_robust\<close>\<close>

text \<open>
  \<^verbatim>\<open>chardet.detect(raw_data)['encoding']\<close> is a string or \<^verbatim>\<open>None\<close> (the detector
  reports no encoding when no prober is confident), so an encoding candidate is a
  \<open>string option\<close>.  \<^verbatim>\<open>pd.read_csv\<close> is the environment: a function from the
  candidate encoding to the table or the exception it raises.
\<close>

type_synonym encoding = "string option"

definition fallback_encodings :: "encoding list" where
  "fallback_encodings =
     [Some ''utf-8'', Some ''latin-1'', Some ''iso-8859-1'', Some ''cp1252'',
      Some ''utf-16'', Some ''ascii'']"

text \<open>\<^verbatim>\<open>list(dict.fromkeys(xs))\<close>: keys in the order of their first insertion.\<close>

fun fromkeys_acc :: "'a list \<Rightarrow> 'a list \<Rightarrow> 'a list" where
  "fromkeys_acc acc [] = acc"
| "fromkeys_acc acc (x # xs) =
     (if x \<in> set acc then fromkeys_acc acc xs else fromkeys_acc (acc @ [x]) xs)"

definition fromkeys :: "'a list \<Rightarrow> 'a list" where
  "fromkeys xs = fromkeys_acc [] xs"

text \<open>\<^verbatim>\<open>encodings_to_try\<close> after \<^verbatim>\<open>insert(0, detected_encoding)\<close> and the de-duplication.\<close>

definition encodings_to_try :: "encoding \<Rightarrow> encoding list" where
  "encodings_to_try detected = fromkeys (detected # fallback_encodings)"

text \<open>\<^verbatim>\<open>', '.join(xs)\<close>: a \<^verbatim>\<open>TypeError\<close> when an item is not a string.\<close>

fun intersperse_sep :: "string \<Rightarrow> string list \<Rightarrow> string" where
  "intersperse_sep sep [] = []"
| "intersperse_sep sep [x] = x"
| "intersperse_sep sep (x # y # ys) = x @ sep @ intersperse_sep sep (y # ys)"

fun all_strings :: "encoding list \<Rightarrow> string list option" where
  "all_strings [] = Some []"
| "all_strings (None # es) = None"
| "all_strings (Some s # es) = map_option ((#) s) (all_strings es)"

fun first_none :: "encoding list \<Rightarrow> nat" where
  "first_none [] = 0"
| "first_none (None # es) = 0"
| "first_none (Some s # es) = Suc (first_none es)"

definition join_encodings :: "encoding list \<Rightarrow> exn + string" where
  "join_encodings es =
     (case all_strings es of
        None \<Rightarrow>
          Inl (TypeError (''sequence item '' @ show_nat (first_none es) @
                          '': expected str instance, NoneType found''))
      | Some ss \<Rightarrow> Inr (intersperse_sep '', '' ss))"

definition is_read_failure :: "exn \<Rightarrow> bool" where
  "is_read_failure e = (case e of UnicodeDecodeError m \<Rightarrow> True | ParserError m \<Rightarrow> True | _ \<Rightarrow> False)"

text \<open>
  The loop over the candidates: the table of the first candidate that parses; the
  next candidate after a \<^verbatim>\<open>UnicodeDecodeError\<close> or a \<^verbatim>\<open>ParserError\<close>; any other
  exception propagates.  The second component is what was printed.
\<close>

fun show_encoding :: "encoding \<Rightarrow> string" where
  "show_encoding None = ''None''"
| "show_encoding (Some s) = s"

fun try_encodings ::
  "(encoding \<Rightarrow> exn + 'df) \<Rightarrow> encoding list \<Rightarrow> string list \<Rightarrow> (exn + 'df) option \<times> string list" where
  "try_encodings read_csv [] out = (None, out)"
| "try_encodings read_csv (enc # encs) out =
     (case read_csv enc of
        Inr df \<Rightarrow>
          (Some (Inr df),
           out @ [''Successfully read CSV with '' @ show_encoding enc @ '' encoding''])
      | Inl e \<Rightarrow>
          if is_read_failure e
          then try_encodings read_csv encs
                 (out @ [''Failed to read with '' @ show_encoding enc @ '' encoding: '' @ str_exn e])
          else (Some (Inl e), out))"

text \<open>
  \<open>opened\<close> is the outcome of opening the file, reading its bytes and running the
  detector on them: the detected encoding, or the exception of a file that cannot be
  read.
\<close>

definition read_csv_robust ::
  "exn + encoding \<Rightarrow> (encoding \<Rightarrow> exn + 'df) \<Rightarrow> (exn + 'df) \<times> string list" where
  "read_csv_robust opened read_csv =
     (case opened of
        Inl e \<Rightarrow> (Inl e, [])
      | Inr detected_encoding \<Rightarrow>
     (let encs = encodings_to_try detected_encoding in
      case try_encodings read_csv encs [] of
        (Some r, out) \<Rightarrow> (r, out)
      | (None, out) \<Rightarrow>
          (case join_encodings encs of
             Inl e \<Rightarrow> (Inl e, out)
           | Inr tried \<Rightarrow>
               (Inl (ValueError
                  (''Could not read the CSV file with any of the tried encodings. '' @
                   ''Tried: '' @ tried)), out))))"

section \<open>The table\<close>

text \<open>
  The table \<^verbatim>\<open>self.df\<close> is a pandas \<^verbatim>\<open>DataFrame\<close>: named columns in order, each
  a \<^verbatim>\<open>Series\<close> with a dtype and its values.  The dtypes are those
  \<^verbatim>\<open>pd.read_csv\<close> produces.  \<open>NaN\<close> is the missing value.  A Python or numpy
  float is a \<open>pyfloat\<close>: the real number it denotes, or \<open>None\<close> for NaN (the
  infinities are not modelled; the rounding of the outlier computation is a parameter,
  the percentage of missing values is the exact quotient).  Column names are distinct in a table
  read by \<^verbatim>\<open>pd.read_csv\<close>, and all columns have as many values as the table has
  rows; the theorems state these two conditions where they need them.
\<close>

datatype dtype = Int64 | Float64 | Bool | Object

datatype cell = NaN | IntV int | FloatV real | BoolV bool | StrV string

record series =
  dtype :: dtype
  cells :: "cell list"

type_synonym dataframe = "(string \<times> series) list"

type_synonym pyfloat = "real option"

fun dtype_str :: "dtype \<Rightarrow> string" where
  "dtype_str Int64 = ''int64''"
| "dtype_str Float64 = ''float64''"
| "dtype_str Bool = ''bool''"
| "dtype_str Object = ''object''"

text \<open>\<^verbatim>\<open>len(df)\<close>, \<^verbatim>\<open>df.columns\<close>, \<^verbatim>\<open>df[col]\<close> and \<^verbatim>\<open>df[col] = s\<close>.\<close>

fun len_df :: "dataframe \<Rightarrow> nat" where
  "len_df [] = 0"
| "len_df ((n, s) # df) = length (cells s)"

definition columns :: "dataframe \<Rightarrow> string list" where
  "columns df = map fst df"

text \<open>
  The tables pandas builds: an integer column holds integers, a float column floats and
  missing values, a boolean column booleans, an object column strings, booleans and
  missing values; the names are distinct and every column has one value per row.
\<close>

fun cell_fits :: "dtype \<Rightarrow> cell \<Rightarrow> bool" where
  "cell_fits Int64 (IntV i) = True"
| "cell_fits Float64 (FloatV r) = True"
| "cell_fits Float64 NaN = True"
| "cell_fits Bool (BoolV b) = True"
| "cell_fits Object (StrV s) = True"
| "cell_fits Object (BoolV b) = True"
| "cell_fits Object NaN = True"
| "cell_fits d c = False"

definition wf_series :: "series \<Rightarrow> bool" where
  "wf_series s = list_all (cell_fits (dtype s)) (cells s)"

definition wf_df :: "dataframe \<Rightarrow> bool" where
  "wf_df df =
     (distinct (columns df) \<and>
      list_all (\<lambda>(n, s). wf_series s \<and> length (cells s) = len_df df) df)"

definition getitem :: "dataframe \<Rightarrow> string \<Rightarrow> exn + series" where
  "getitem df col = (case map_of df col of None \<Rightarrow> Inl (Exception col) | Some s \<Rightarrow> Inr s)"

definition setitem :: "dataframe \<Rightarrow> string \<Rightarrow> series \<Rightarrow> dataframe" where
  "setitem df col s =
     (if col \<in> set (columns df)
      then map (\<lambda>(n, old). if n = col then (n, s) else (n, old)) df
      else df @ [(col, s)])"

text \<open>\<^verbatim>\<open>df.select_dtypes(include=[np.number]).columns\<close>: the integer and float columns.\<close>

definition is_number :: "dtype \<Rightarrow> bool" where
  "is_number d = (d = Int64 \<or> d = Float64)"

definition select_dtypes_number :: "dataframe \<Rightarrow> string list" where
  "select_dtypes_number df = map fst (filter (\<lambda>(n, s). is_number (dtype s)) df)"

text \<open>\<^verbatim>\<open>df[cols]\<close> for a list of column names of the table.\<close>

definition getitems :: "dataframe \<Rightarrow> string list \<Rightarrow> dataframe" where
  "getitems df cols = concat (map (\<lambda>c. case map_of df c of None \<Rightarrow> [] | Some s \<Rightarrow> [(c, s)]) cols)"

text \<open>\<^verbatim>\<open>s.isna()\<close>, \<^verbatim>\<open>s.isna().all()\<close> and \<^verbatim>\<open>s.isnull().sum()\<close>.\<close>

definition isna :: "cell \<Rightarrow> bool" where
  "isna c = (c = NaN)"

definition isna_all :: "series \<Rightarrow> bool" where
  "isna_all s = list_all isna (cells s)"

definition isnull_sum :: "series \<Rightarrow> nat" where
  "isnull_sum s = length (filter isna (cells s))"

subsection \<open>Float arithmetic\<close>

text \<open>
  The program computes the outlier bounds and percentages in float64.  A float64 value is
  the real number it denotes, or NaN; the operations round.  How they round is not fixed
  here: addition, subtraction and multiplication of two numbers, the quotient of two
  Python integers and the conversion of an integer are the fields of the record
  \<open>arithmetic\<close>, and what is proved holds for every such record, float64 included.
  NaN propagates through the operations.  Overflow to an infinity is not modelled.
\<close>

record arithmetic =
  add64 :: "real \<Rightarrow> real \<Rightarrow> real"
  sub64 :: "real \<Rightarrow> real \<Rightarrow> real"
  mul64 :: "real \<Rightarrow> real \<Rightarrow> real"
  truediv :: "nat \<Rightarrow> nat \<Rightarrow> real"
  float_of_int :: "int \<Rightarrow> real"

definition fsub :: "arithmetic \<Rightarrow> pyfloat \<Rightarrow> pyfloat \<Rightarrow> pyfloat" where
  "fsub ar a b = (case (a, b) of (Some x, Some y) \<Rightarrow> Some (sub64 ar x y) | _ \<Rightarrow> None)"

definition fadd :: "arithmetic \<Rightarrow> pyfloat \<Rightarrow> pyfloat \<Rightarrow> pyfloat" where
  "fadd ar a b = (case (a, b) of (Some x, Some y) \<Rightarrow> Some (add64 ar x y) | _ \<Rightarrow> None)"

definition fmul :: "arithmetic \<Rightarrow> pyfloat \<Rightarrow> pyfloat \<Rightarrow> pyfloat" where
  "fmul ar a b = (case (a, b) of (Some x, Some y) \<Rightarrow> Some (mul64 ar x y) | _ \<Rightarrow> None)"

text \<open>
  Comparing two float64 values compares the numbers they denote; comparisons with NaN
  are false.
\<close>

definition flt :: "pyfloat \<Rightarrow> pyfloat \<Rightarrow> bool" where
  "flt a b = (case (a, b) of (Some x, Some y) \<Rightarrow> x < y | _ \<Rightarrow> False)"

definition fgt :: "pyfloat \<Rightarrow> pyfloat \<Rightarrow> bool" where
  "fgt a b = (case (a, b) of (Some x, Some y) \<Rightarrow> x > y | _ \<Rightarrow> False)"

text \<open>
  The value of a cell of a numeric column in a comparison with a float: an integer is
  converted first.
\<close>

fun cell_float64 :: "arithmetic \<Rightarrow> cell \<Rightarrow> pyfloat" where
  "cell_float64 ar (IntV i) = Some (float_of_int ar i)"
| "cell_float64 ar (FloatV r) = Some r"
| "cell_float64 ar (BoolV b) = Some (if b then 1 else 0)"
| "cell_float64 ar NaN = None"
| "cell_float64 ar (StrV s) = None"

subsection \<open>\<^verbatim>\<open>pd.to_numeric(s, errors='coerce')\<close>\<close>

text \<open>
  A column whose dtype is numeric or boolean is returned as it is.  The values of an
  object column are converted one by one: a string goes through the library's number
  parser \<open>floatify\<close> (a parameter: it yields an integer, a float, or \<open>NaN\<close> for
  a string that is no number), the empty string and the missing value become
  \<open>NaN\<close>.  The result is a float column as soon as one value is a float or
  missing, else an integer column if there is an integer, else a boolean one.
\<close>

fun coerce_cell :: "(string \<Rightarrow> cell) \<Rightarrow> cell \<Rightarrow> cell" where
  "coerce_cell floatify (StrV s) =
     (if s = [] then NaN
      else case floatify s of IntV i \<Rightarrow> IntV i | FloatV r \<Rightarrow> FloatV r | _ \<Rightarrow> NaN)"
| "coerce_cell floatify c = c"

fun as_float :: "cell \<Rightarrow> cell" where
  "as_float (IntV i) = FloatV (of_int i)"
| "as_float (BoolV b) = FloatV (if b then 1 else 0)"
| "as_float c = c"

fun as_int :: "cell \<Rightarrow> cell" where
  "as_int (BoolV b) = IntV (if b then 1 else 0)"
| "as_int c = c"

definition seen_float :: "cell list \<Rightarrow> bool" where
  "seen_float cs = list_ex (\<lambda>c. case c of NaN \<Rightarrow> True | FloatV r \<Rightarrow> True | _ \<Rightarrow> False) cs"

definition seen_int :: "cell list \<Rightarrow> bool" where
  "seen_int cs = list_ex (\<lambda>c. case c of IntV i \<Rightarrow> True | _ \<Rightarrow> False) cs"

definition seen_bool :: "cell list \<Rightarrow> bool" where
  "seen_bool cs = list_ex (\<lambda>c. case c of BoolV b \<Rightarrow> True | _ \<Rightarrow> False) cs"

definition to_numeric :: "(string \<Rightarrow> cell) \<Rightarrow> series \<Rightarrow> series" where
  "to_numeric floatify s =
     (if dtype s \<noteq> Object then s
      else let cs = map (coerce_cell floatify) (cells s) in
        if seen_float cs then \<lparr>dtype = Float64, cells = map as_float cs\<rparr>
        else if seen_int cs then \<lparr>dtype = Int64, cells = map as_int cs\<rparr>
        else if seen_bool cs then \<lparr>dtype = Bool, cells = cs\<rparr>
        else \<lparr>dtype = Int64, cells = cs\<rparr>)"

section \<open>Analysis\<close>

text \<open>
  The numeric kernels of pandas that the analysis calls are parameters, collected in the
  record \<open>pandas\<close>: the number parser of \<^verbatim>\<open>to_numeric\<close>,
  \<^verbatim>\<open>DataFrame.describe().to_dict()\<close>, the Pearson coefficient of two columns that
  \<^verbatim>\<open>DataFrame.corr()\<close> computes, and \<^verbatim>\<open>Series.quantile\<close>, which may raise.
  The record also carries the float arithmetic in which the program computes.
\<close>

record 'd pandas =
  floatify :: "string \<Rightarrow> cell"
  describe :: "dataframe \<Rightarrow> (string \<times> 'd) list"
  pearson :: "series \<Rightarrow> series \<Rightarrow> pyfloat"
  quantile :: "series \<Rightarrow> real \<Rightarrow> exn + pyfloat"
  arith :: arithmetic

record 'd basic_stats =
  total_rows :: nat
  total_columns :: nat
  numeric_columns :: "string list"
  summary :: "(string \<times> 'd) list"

record outlier_entry =
  total_outliers :: nat
  percentage :: real
  lower_bound :: pyfloat
  upper_bound :: pyfloat

record 'd analysis =
  basic_stats :: "'d basic_stats"
  missing_values :: "(string \<times> pyfloat) list"
  correlations :: "(string \<times> (string \<times> pyfloat) list) list"
  column_types :: "(string \<times> string) list"
  outliers :: "(string \<times> outlier_entry) list"

subsection \<open>\<^verbatim>\<open>_get_basic_statistics\<close>\<close>

text \<open>
  The loop over \<^verbatim>\<open>self.df.columns\<close>: every column is assigned its coercion, and
  its name is appended to \<^verbatim>\<open>numeric_cols\<close> unless the coerced column is all
  missing.  The bare \<^verbatim>\<open>except: pass\<close> covers a failing column access; the
  coercion itself does not raise on the columns of a table read from CSV.
\<close>

fun coerce_columns ::
  "(string \<Rightarrow> cell) \<Rightarrow> string list \<Rightarrow> dataframe \<Rightarrow> string list \<Rightarrow> dataframe \<times> string list" where
  "coerce_columns fl [] df numeric_cols = (df, numeric_cols)"
| "coerce_columns fl (col # cols) df numeric_cols =
     (case getitem df col of
        Inl e \<Rightarrow> coerce_columns fl cols df numeric_cols
      | Inr s \<Rightarrow>
          let s' = to_numeric fl s;
              df' = setitem df col s'
          in coerce_columns fl cols df'
               (if \<not> isna_all s' then numeric_cols @ [col] else numeric_cols))"

text \<open>
  \<^verbatim>\<open>list(set(numeric_cols))\<close> removes the duplicates; the order of the result is not
  specified by Python, and \<open>remdups\<close> fixes one.  The function returns the statistics
  and the table as it has left it.
\<close>

definition get_basic_statistics :: "'d pandas \<Rightarrow> dataframe \<Rightarrow> 'd basic_stats \<times> dataframe" where
  "get_basic_statistics pd df =
     (let numeric_cols0 = select_dtypes_number df;
          (df', numeric_cols1) = coerce_columns (floatify pd) (columns df) df numeric_cols0;
          numeric_cols = remdups numeric_cols1
      in (\<lparr>total_rows = len_df df',
           total_columns = length (columns df'),
           numeric_columns = numeric_cols,
           summary = (if numeric_cols \<noteq> [] then describe pd (getitems df' numeric_cols) else [])\<rparr>,
          df'))"

subsection \<open>\<^verbatim>\<open>_analyze_missing_values\<close>\<close>

text \<open>
  \<^verbatim>\<open>df.isnull().sum() / len(df) * 100\<close> is a numpy division: on a table without rows
  it is NaN, not an exception.
\<close>

definition missing_percentage :: "dataframe \<Rightarrow> series \<Rightarrow> pyfloat" where
  "missing_percentage df s =
     (if len_df df = 0 then None
      else Some (real (isnull_sum s) / real (len_df df) * 100))"

definition analyze_missing_values :: "dataframe \<Rightarrow> (string \<times> pyfloat) list" where
  "analyze_missing_values df =
     (let missing_percentages = map (\<lambda>(n, s). (n, missing_percentage df s)) df
      in filter (\<lambda>(k, v). fgt v (Some 0)) missing_percentages)"

subsection \<open>\<^verbatim>\<open>_compute_correlations\<close>\<close>

text \<open>\<^verbatim>\<open>df.corr().to_dict()\<close>: for every column, the coefficient with every column.\<close>

definition corr_to_dict ::
  "(series \<Rightarrow> series \<Rightarrow> pyfloat) \<Rightarrow> dataframe \<Rightarrow> (string \<times> (string \<times> pyfloat) list) list" where
  "corr_to_dict pe df = map (\<lambda>(c, s). (c, map (\<lambda>(r, t). (r, pe t s)) df)) df"

definition compute_correlations ::
  "'d pandas \<Rightarrow> dataframe \<Rightarrow> (string \<times> (string \<times> pyfloat) list) list" where
  "compute_correlations pd df =
     (let numeric_cols = select_dtypes_number df
      in if length numeric_cols > 1
         then corr_to_dict (pearson pd) (getitems df numeric_cols)
         else [])"

subsection \<open>\<^verbatim>\<open>_get_column_types\<close>\<close>

definition get_column_types :: "dataframe \<Rightarrow> (string \<times> string) list" where
  "get_column_types df = map (\<lambda>(n, s). (n, dtype_str (dtype s))) df"

subsection \<open>\<^verbatim>\<open>_detect_outliers\<close>\<close>

text \<open>
  The body of the \<^verbatim>\<open>try\<close> for one column: \<open>Inl\<close> when it raises, \<open>Inr None\<close>
  when no row is selected, the entry otherwise.  \<^verbatim>\<open>len(column_outliers) / len(self.df)\<close>
  is a Python division, which raises on a zero divisor.
\<close>

definition is_outlier :: "arithmetic \<Rightarrow> pyfloat \<Rightarrow> pyfloat \<Rightarrow> cell \<Rightarrow> bool" where
  "is_outlier ar lower upper c =
     (flt (cell_float64 ar c) lower \<or> fgt (cell_float64 ar c) upper)"

definition column_outliers :: "'d pandas \<Rightarrow> dataframe \<Rightarrow> string \<Rightarrow> exn + outlier_entry option" where
  "column_outliers pd df col =
     (case getitem df col of
        Inl e \<Rightarrow> Inl e
      | Inr s \<Rightarrow>
     (case quantile pd s 0.25 of
        Inl e \<Rightarrow> Inl e
      | Inr Q1 \<Rightarrow>
     (case quantile pd s 0.75 of
        Inl e \<Rightarrow> Inl e
      | Inr Q3 \<Rightarrow>
          let ar = arith pd;
              IQR = fsub ar Q3 Q1;
              lower = fsub ar Q1 (fmul ar (Some 1.5) IQR);
              upper = fadd ar Q3 (fmul ar (Some 1.5) IQR);
              n = length (filter (is_outlier ar lower upper) (cells s))
          in if n = 0 then Inr None
             else if len_df df = 0 then Inl (Exception ''division by zero'')
             else Inr (Some \<lparr>total_outliers = n,
                             percentage = mul64 ar (truediv ar n (len_df df)) 100,
                             lower_bound = lower,
                             upper_bound = upper\<rparr>))))"

text \<open>\<^verbatim>\<open>d[k] = v\<close> on a dictionary kept as an association list in insertion order.\<close>

definition dict_set :: "('k \<times> 'v) list \<Rightarrow> 'k \<Rightarrow> 'v \<Rightarrow> ('k \<times> 'v) list" where
  "dict_set d k v =
     (if k \<in> fst ` set d then map (\<lambda>(k', v'). if k' = k then (k', v) else (k', v')) d
      else d @ [(k, v)])"

definition outlier_message :: "string \<Rightarrow> exn \<Rightarrow> string" where
  "outlier_message col e = ''Could not detect outliers for column '' @ col @ '': '' @ str_exn e"

fun outliers_loop ::
  "'d pandas \<Rightarrow> dataframe \<Rightarrow> string list \<Rightarrow> (string \<times> outlier_entry) list \<Rightarrow> string list
   \<Rightarrow> (string \<times> outlier_entry) list \<times> string list" where
  "outliers_loop pd df [] acc out = (acc, out)"
| "outliers_loop pd df (col # cols) acc out =
     (case column_outliers pd df col of
        Inl e \<Rightarrow>
          outliers_loop pd df cols acc (out @ [outlier_message col e])
      | Inr None \<Rightarrow> outliers_loop pd df cols acc out
      | Inr (Some entry) \<Rightarrow> outliers_loop pd df cols (dict_set acc col entry) out)"

definition detect_outliers ::
  "'d pandas \<Rightarrow> dataframe \<Rightarrow> (string \<times> outlier_entry) list \<times> string list" where
  "detect_outliers pd df = outliers_loop pd df (select_dtypes_number df) [] []"

subsection \<open>\<^verbatim>\<open>analyze_dataset\<close>\<close>

text \<open>
  The five sections are computed in the order of the dictionary literal; the first one
  changes the table, the others read the changed table.  The result is the analysis, the
  table afterwards and what was printed.
\<close>

definition analyze_dataset :: "'d pandas \<Rightarrow> dataframe \<Rightarrow> 'd analysis \<times> dataframe \<times> string list" where
  "analyze_dataset pd df =
     (let (stats, df') = get_basic_statistics pd df;
          missing = analyze_missing_values df';
          corr = compute_correlations pd df';
          types = get_column_types df';
          (outl, out) = detect_outliers pd df'
      in (\<lparr>basic_stats = stats,
           missing_values = missing,
           correlations = corr,
           column_types = types,
           outliers = outl\<rparr>, df', out))"

section \<open>The outside world\<close>

text \<open>
  What the program reads from outside is the record \<open>env\<close>: the file and the
  detector, \<^verbatim>\<open>pd.read_csv\<close>, \<^verbatim>\<open>os.makedirs\<close>, the plotting libraries (the image
  they render, or the exception they raise) and the model endpoint, which answers the \<open>k\<close>-th request
  the program makes (\<open>k\<close> from 0).  An HTTP response is its status code and what
  \<^verbatim>\<open>response.json()['choices'][0]['message']['content']\<close> evaluates to: the text,
  or the exception of a body that has no such entry.  What the program does to the outside
  is the record \<open>state\<close>: the lines printed, the files written (in order), the
  number of requests sent and the waits slept.
\<close>

datatype http_response = Response (status_code: nat) (message_content: "exn + string")

record 'd env =
  lib :: "'d pandas"
  detect :: "string \<Rightarrow> exn + encoding"
  read_csv :: "string \<Rightarrow> encoding \<Rightarrow> exn + dataframe"
  makedirs :: "string \<Rightarrow> exn + unit"
  render :: "exn + string"
  post :: "nat \<Rightarrow> exn + http_response"

record state =
  stdout :: "string list"
  writes :: "(string \<times> string) list"
  requests_made :: nat
  slept :: "nat list"

definition init_state :: state where
  "init_state = \<lparr>stdout = [], writes = [], requests_made = 0, slept = []\<rparr>"

definition print :: "string \<Rightarrow> state \<Rightarrow> state" where
  "print line st = st\<lparr>stdout := stdout st @ [line]\<rparr>"

definition prints :: "string list \<Rightarrow> state \<Rightarrow> state" where
  "prints ls st = st\<lparr>stdout := stdout st @ ls\<rparr>"

definition write_file :: "string \<Rightarrow> string \<Rightarrow> state \<Rightarrow> state" where
  "write_file path text st = st\<lparr>writes := writes st @ [(path, text)]\<rparr>"

text \<open>The content of a file: what was written to it last.\<close>

definition file_content :: "state \<Rightarrow> string \<Rightarrow> string option" where
  "file_content st path = map_of (rev (writes st)) path"

section \<open>The analyzer\<close>

record analyzer =
  csv_path :: string
  df :: dataframe
  dataset_name :: string

text \<open>\<^verbatim>\<open>os.path.basename\<close> and the root of \<^verbatim>\<open>os.path.splitext\<close> (POSIX).\<close>

definition basename :: "string \<Rightarrow> string" where
  "basename p = rev (takeWhile (\<lambda>c. c \<noteq> CHR ''/'') (rev p))"

definition splitext_root :: "string \<Rightarrow> string" where
  "splitext_root p =
     (if CHR ''.'' \<in> set p
      then let root = rev (tl (dropWhile (\<lambda>c. c \<noteq> CHR ''.'') (rev p)))
           in if list_ex (\<lambda>c. c \<noteq> CHR ''.'') root then root else p
      else p)"

definition init :: "'d env \<Rightarrow> string \<Rightarrow> state \<Rightarrow> (exn + analyzer) \<times> state" where
  "init env path st =
     (case read_csv_robust (detect env path) (read_csv env path) of
        (Inl e, out) \<Rightarrow> (Inl e, prints out st)
      | (Inr d, out) \<Rightarrow>
          (Inr \<lparr>csv_path = path, df = d, dataset_name = splitext_root (basename path)\<rparr>,
           prints out st))"

section \<open>Visualization: \<^verbatim>\<open>visualize_data\<close>\<close>

text \<open>The whole body is in a \<^verbatim>\<open>try\<close> that catches \<^verbatim>\<open>Exception\<close> and prints it.\<close>

definition plots_path :: "string \<Rightarrow> string" where
  "plots_path name = name @ ''/analysis_plots.png''"

definition visualize_data :: "'d env \<Rightarrow> analyzer \<Rightarrow> state \<Rightarrow> state" where
  "visualize_data env a st =
     (case render env of
        Inr png \<Rightarrow> write_file (plots_path (dataset_name a)) png st
      | Inl e \<Rightarrow> print (''Error creating visualizations: '' @ str_exn e) st)"

section \<open>Narration: \<^verbatim>\<open>generate_narrative\<close>\<close>

definition readme_path :: "string \<Rightarrow> string" where
  "readme_path name = name @ ''/README.md''"

definition nl :: string where
  "nl = [CHR 0x0A]"

definition failure_note :: string where
  "failure_note = ''Automated analysis could not generate a detailed narrative.''"

definition fallback_report :: "string \<Rightarrow> nat \<Rightarrow> nat \<Rightarrow> string" where
  "fallback_report name rows cols =
     ''# Dataset Analysis for '' @ name @ nl @ nl @
     ''Total Rows: '' @ show_nat rows @ nl @
     ''Total Columns: '' @ show_nat cols @ nl @ nl @
     failure_note"

definition is_request_exception :: "exn \<Rightarrow> bool" where
  "is_request_exception e = (case e of RequestException m \<Rightarrow> True | _ \<Rightarrow> False)"

text \<open>
  The statements of the \<^verbatim>\<open>try\<close>: the request, \<^verbatim>\<open>raise_for_status\<close> (an
  \<^verbatim>\<open>HTTPError\<close>, which is a \<^verbatim>\<open>RequestException\<close>, for a 4xx or 5xx status)
  and the extraction of the text.
\<close>

definition request_narrative :: "(exn + http_response) \<Rightarrow> exn + string" where
  "request_narrative r =
     (case r of
        Inl e \<Rightarrow> Inl e
      | Inr response \<Rightarrow>
          if 400 \<le> status_code response \<and> status_code response < 600
          then Inl (RequestException ''HTTPError'')
          else message_content response)"

text \<open>
  One call of the undecorated function.  A \<^verbatim>\<open>RequestException\<close> is caught inside:
  the fallback is written and the call returns normally.  Any other exception leaves
  the call.
\<close>

definition narrative_attempt ::
  "'d env \<Rightarrow> analyzer \<Rightarrow> 'd analysis \<Rightarrow> state \<Rightarrow> (exn + unit) \<times> state" where
  "narrative_attempt env a an st =
     (let st1 = st\<lparr>requests_made := requests_made st + 1\<rparr> in
      case request_narrative (post env (requests_made st)) of
        Inr narrative \<Rightarrow> (Inr (), write_file (readme_path (dataset_name a)) narrative st1)
      | Inl e \<Rightarrow>
          if is_request_exception e
          then (Inr (),
                write_file (readme_path (dataset_name a))
                  (fallback_report (dataset_name a)
                     (total_rows (basic_stats an)) (total_columns (basic_stats an)))
                  (print (''Error generating narrative: '' @ str_exn e) st1))
          else (Inl e, st1))"

text \<open>
  The two ways the \<open>k\<close>-th request can fail: with a \<^verbatim>\<open>RequestException\<close>
  (the transport, the status or, in the requests library, a body that is not JSON), or
  with any other exception (a JSON body without the expected entry).
\<close>

definition network_failure :: "'d env \<Rightarrow> nat \<Rightarrow> bool" where
  "network_failure env k =
     (case request_narrative (post env k) of Inl e \<Rightarrow> is_request_exception e | Inr t \<Rightarrow> False)"

definition other_failure :: "'d env \<Rightarrow> nat \<Rightarrow> bool" where
  "other_failure env k =
     (case request_narrative (post env k) of Inl e \<Rightarrow> \<not> is_request_exception e | Inr t \<Rightarrow> False)"

text \<open>
  The decorator \<^verbatim>\<open>@retry(stop=stop_after_attempt(3),
  wait=wait_exponential(multiplier=1, min=4, max=10))\<close> of the tenacity library: the
  call is repeated when it raises, after a wait, until the attempt with number 3 has
  raised; then \<^verbatim>\<open>RetryError\<close> is raised.
\<close>

definition wait_exponential :: "nat \<Rightarrow> nat \<Rightarrow> nat \<Rightarrow> nat \<Rightarrow> nat" where
  "wait_exponential multiplier mn mx attempt_number =
     max (max 0 mn) (min (multiplier * 2 ^ (attempt_number - 1)) mx)"

definition stop_after_attempt :: "nat \<Rightarrow> nat \<Rightarrow> bool" where
  "stop_after_attempt k attempt_number = (attempt_number \<ge> k)"

function retry ::
  "(state \<Rightarrow> (exn + unit) \<times> state) \<Rightarrow> nat \<Rightarrow> state \<Rightarrow> (exn + unit) \<times> state" where
  "retry f attempt_number st =
     (case f st of
        (Inr x, st') \<Rightarrow> (Inr x, st')
      | (Inl e, st') \<Rightarrow>
          if stop_after_attempt 3 attempt_number then (Inl RetryError, st')
          else retry f (attempt_number + 1)
                 (st'\<lparr>slept := slept st' @ [wait_exponential 1 4 10 attempt_number]\<rparr>))"
  by pat_completeness auto
termination
  by (relation "measure (\<lambda>(f, n, st). 3 - n)") (auto simp: stop_after_attempt_def)

declare retry.simps [simp del]

definition generate_narrative ::
  "'d env \<Rightarrow> analyzer \<Rightarrow> 'd analysis \<Rightarrow> state \<Rightarrow> (exn + unit) \<times> state" where
  "generate_narrative env a an st = retry (narrative_attempt env a an) 1 st"

section \<open>The pipeline: \<^verbatim>\<open>run_analysis\<close> and \<^verbatim>\<open>main\<close>\<close>

text \<open>
  The directory is created first; a failure of \<^verbatim>\<open>os.makedirs\<close> is not caught.
  The analysis changes \<^verbatim>\<open>self.df\<close>.  Writing a file is taken to succeed.
\<close>

definition run_analysis :: "'d env \<Rightarrow> analyzer \<Rightarrow> state \<Rightarrow> (exn + unit) \<times> state" where
  "run_analysis env a st =
     (case makedirs env (dataset_name a) of
        Inl e \<Rightarrow> (Inl e, st)
      | Inr u \<Rightarrow>
          let (an, df', out) = analyze_dataset (lib env) (df a);
              a' = a\<lparr>df := df'\<rparr>;
              st1 = prints out st;
              st2 = visualize_data env a' st1
          in generate_narrative env a' an st2)"

datatype outcome = Returned | SysExit nat | Raised exn

definition usage :: string where
  "usage = ''Usage: python autolysis.py <path_to_csv>''"

definition main :: "'d env \<Rightarrow> string list \<Rightarrow> state \<Rightarrow> outcome \<times> state" where
  "main env argv st =
     (if length argv < 2 then (SysExit 1, print usage st)
      else
        let csv_path = argv ! 1 in
        case init env csv_path st of
          (Inl e, st1) \<Rightarrow> (Raised e, st1)
        | (Inr a, st1) \<Rightarrow>
            (case run_analysis env a st1 of
               (Inl e, st2) \<Rightarrow> (Raised e, st2)
             | (Inr u, st2) \<Rightarrow> (Returned, st2)))"

section \<open>Reference models of the library kernels, and example inputs\<close>

text \<open>
  The theorems below hold for every instance of the parameters.  To run the definitions on
  concrete tables, this section gives one instance: a parser that reads unsigned decimal
  integers, a summary that counts the values present, the quantile by linear
  interpolation between the two nearest order statistics (the default of
  \<^verbatim>\<open>Series.quantile\<close>), and an arithmetic that does not round.  The Pearson kernel
  stays an argument of the instance; \<open>nan_kernel\<close> is for runs in which no
  coefficient is looked at.  The example tables are such that float64 yields the bounds
  and percentages that the arithmetic without rounding yields.
\<close>

fun cell_float :: "cell \<Rightarrow> pyfloat" where
  "cell_float (IntV i) = Some (of_int i)"
| "cell_float (FloatV r) = Some r"
| "cell_float (BoolV b) = Some (if b then 1 else 0)"
| "cell_float NaN = None"
| "cell_float (StrV s) = None"

definition exact_arith :: arithmetic where
  "exact_arith =
     \<lparr>add64 = (\<lambda>x y. x + y), sub64 = (\<lambda>x y. x - y), mul64 = (\<lambda>x y. x * y),
      truediv = (\<lambda>n m. real n / real m), float_of_int = of_int\<rparr>"

definition is_digit :: "char \<Rightarrow> bool" where
  "is_digit c = (c \<in> set ''0123456789'')"

definition digit_value :: "char \<Rightarrow> nat" where
  "digit_value c = of_char c - 48"

definition parse_digits :: "string \<Rightarrow> cell" where
  "parse_digits s =
     (if s \<noteq> [] \<and> list_all is_digit s
      then IntV (int (foldl (\<lambda>a c. 10 * a + digit_value c) 0 s))
      else NaN)"

definition describe_counts :: "dataframe \<Rightarrow> (string \<times> nat) list" where
  "describe_counts d = map (\<lambda>(n, s). (n, length (filter (\<lambda>c. \<not> isna c) (cells s)))) d"

definition present_values :: "series \<Rightarrow> real list" where
  "present_values s = concat (map (\<lambda>c. case cell_float c of None \<Rightarrow> [] | Some v \<Rightarrow> [v]) (cells s))"

definition quantile_linear :: "series \<Rightarrow> real \<Rightarrow> exn + pyfloat" where
  "quantile_linear s q =
     (if q < 0 \<or> 1 < q then Inl (ValueError ''percentiles should all be in the interval [0, 1]'')
      else
        let xs = sort (present_values s);
            n = length xs
        in if n = 0 then Inr None
           else
             let pos = q * real (n - 1);
                 lo = nat \<lfloor>pos\<rfloor>;
                 hi = min (lo + 1) (n - 1);
                 frac = pos - real lo
             in Inr (Some (xs ! lo + (xs ! hi - xs ! lo) * frac)))"

definition pandas_model :: "(series \<Rightarrow> series \<Rightarrow> pyfloat) \<Rightarrow> nat pandas" where
  "pandas_model pe =
     \<lparr>floatify = parse_digits, describe = describe_counts,
      pearson = pe, quantile = quantile_linear, arith = exact_arith\<rparr>"

definition nan_kernel :: "series \<Rightarrow> series \<Rightarrow> pyfloat" where
  "nan_kernel a b = None"

text \<open>A quantile that raises on one column, named by its values, for the error path.\<close>

definition quantile_failing :: "cell list \<Rightarrow> series \<Rightarrow> real \<Rightarrow> exn + pyfloat" where
  "quantile_failing bad s q =
     (if cells s = bad then Inl (Exception ''quantile failed'') else quantile_linear s q)"

text \<open>Example tables.\<close>

definition int_series :: "int list \<Rightarrow> series" where
  "int_series xs = \<lparr>dtype = Int64, cells = map IntV xs\<rparr>"

definition text_series :: "string list \<Rightarrow> series" where
  "text_series xs = \<lparr>dtype = Object, cells = map StrV xs\<rparr>"

definition df_one_numeric_one_text :: dataframe where
  "df_one_numeric_one_text =
     [(''x'', int_series [1, 2, 3]), (''s'', text_series [''a'', ''b'', ''c''])]"

definition df_two_text :: dataframe where
  "df_two_text =
     [(''a'', text_series [''x'', ''y'']), (''b'', text_series [''u'', ''v''])]"

definition df_outlier :: dataframe where
  "df_outlier =
     [(''v'', int_series [1, 2, 3, 4, 100]), (''w'', int_series [5, 5, 5, 5, 5])]"

definition df_outlier3 :: dataframe where
  "df_outlier3 = df_outlier @ [(''z'', int_series [0, 0, 0, 0, 50])]"

definition pandas_failing :: "nat pandas" where
  "pandas_failing =
     (pandas_model nan_kernel)\<lparr>quantile := quantile_failing (map IntV [1, 2, 3, 4, 100])\<rparr>"

definition df_missing :: dataframe where
  "df_missing =
     [(''p'', \<lparr>dtype = Float64, cells = [FloatV 1, NaN, FloatV 3, FloatV 4]\<rparr>),
      (''q'', int_series [7, 8, 9, 10])]"

text \<open>
  A file that no candidate encoding reads: its bytes are not valid in the multi-byte and
  the restricted encodings, and under the single-byte encodings that decode every byte
  its rows have different numbers of fields.
\<close>

definition read_csv_unreadable :: "encoding \<Rightarrow> exn + dataframe" where
  "read_csv_unreadable enc =
     (if enc = Some ''latin-1'' \<or> enc = Some ''iso-8859-1''
      then Inl (ParserError ''Error tokenizing data'')
      else Inl (UnicodeDecodeError ''invalid start byte''))"

text \<open>Example environments: one file that reads as a table, and an endpoint.\<close>

definition env_of :: "dataframe \<Rightarrow> (nat \<Rightarrow> exn + http_response) \<Rightarrow> nat env" where
  "env_of d endpoint =
     \<lparr>lib = pandas_model nan_kernel,
      detect = (\<lambda>path. Inr (Some ''ascii'')),
      read_csv = (\<lambda>path enc. Inr d),
      makedirs = (\<lambda>name. Inr ()),
      render = Inr ''png'',
      post = endpoint\<rparr>"

definition endpoint_fail_then_ok :: "nat \<Rightarrow> exn + http_response" where
  "endpoint_fail_then_ok k =
     (if k = 0 then Inl (RequestException ''ConnectionError'')
      else Inr (Response 200 (Inr ''A story about the data.'')))"

definition endpoint_down :: "nat \<Rightarrow> exn + http_response" where
  "endpoint_down k = Inl (RequestException ''ConnectionError'')"

definition endpoint_bad_then_down :: "nat \<Rightarrow> exn + http_response" where
  "endpoint_bad_then_down k =
     (if k = 0 then Inr (Response 200 (Inl (Exception ''choices'')))
      else Inl (RequestException ''ConnectionError''))"

definition endpoint_bad_body :: "nat \<Rightarrow> exn + http_response" where
  "endpoint_bad_body k = Inr (Response 200 (Inl (Exception ''choices'')))"

definition example_analyzer :: analyzer where
  "example_analyzer = \<lparr>csv_path = ''data/sales.csv'', df = df_missing, dataset_name = ''sales''\<rparr>"

definition example_analysis :: "nat analysis" where
  "example_analysis = fst (analyze_dataset (pandas_model nan_kernel) df_missing)"

definition example_argv :: "string list" where
  "example_argv = [''autolysis.py'', ''data/sales.csv'']"

section \<open>Properties of the table operations\<close>

lemma map_of_filter_map:
  "distinct (map fst xs) \<Longrightarrow>
   map_of (filter (\<lambda>(k, v). P v) (map (\<lambda>(n, s). (n, f s)) xs)) n =
     (case map_of xs n of None \<Rightarrow> None | Some s \<Rightarrow> if P (f s) then Some (f s) else None)"
proof (induction xs)
  case Nil
  then show ?case by simp
next
  case (Cons x xs)
  obtain k s where x: "x = (k, s)" by (cases x)
  from Cons.prems x have notin: "k \<notin> fst ` set xs" and d: "distinct (map fst xs)" by auto
  have none: "map_of xs k = None" using notin by (simp add: map_of_eq_None_iff)
  show ?case using Cons.IH[OF d] x none by (auto split: option.splits)
qed

lemma keys_filter_map:
  "fst ` set (filter (\<lambda>(k, v). P v) (map (\<lambda>(n, s). (n, f s)) xs)) =
   {n. \<exists>s. (n, s) \<in> set xs \<and> P (f s)}"
  by force

lemma length_to_numeric: "length (cells (to_numeric fl s)) = length (cells s)"
  by (simp add: to_numeric_def Let_def)

lemma map_setitem:
  assumes "distinct (map fst d)" and "map_of d col = Some s"
  shows "setitem d col (g s) = map (\<lambda>(n, old). if n = col then (n, g old) else (n, old)) d"
proof -
  have mem: "col \<in> set (columns d)"
    using assms(2) by (metis columns_def map_of_eq_None_iff option.distinct(1) set_map)
  have "\<And>n old. (n, old) \<in> set d \<Longrightarrow> n = col \<Longrightarrow> old = s"
    using assms by (metis map_of_is_SomeI option.inject)
  then have "map (\<lambda>(n, old). if n = col then (n, g s) else (n, old)) d
           = map (\<lambda>(n, old). if n = col then (n, g old) else (n, old)) d"
    by (intro map_cong) auto
  then show ?thesis using mem by (simp add: setitem_def)
qed

lemma coerce_columns_fst:
  "distinct (map fst d) \<Longrightarrow> distinct cols \<Longrightarrow> set cols \<subseteq> fst ` set d \<Longrightarrow>
   fst (coerce_columns fl cols d nc) =
     map (\<lambda>(n, s). if n \<in> set cols then (n, to_numeric fl s) else (n, s)) d"
proof (induction cols arbitrary: d nc)
  case Nil
  then show ?case by (simp add: case_prod_unfold)
next
  case (Cons col cols)
  from Cons.prems obtain s where s: "map_of d col = Some s"
    by (metis list.set_intros(1) map_of_eq_None_iff not_None_eq subsetD)
  let ?d' = "setitem d col (to_numeric fl s)"
  have d': "?d' = map (\<lambda>(n, old). if n = col then (n, to_numeric fl old) else (n, old)) d"
    using map_setitem[OF Cons.prems(1) s, of "to_numeric fl"] .
  have keys: "map fst ?d' = map fst d"
    unfolding d' by (induction d) auto
  have IH: "fst (coerce_columns fl cols ?d' nc') =
     map (\<lambda>(n, s). if n \<in> set cols then (n, to_numeric fl s) else (n, s)) ?d'" for nc'
    using Cons.IH[of ?d' nc'] Cons.prems keys by (metis distinct.simps(2) insert_subset list.set_map list.simps(15))
  have notin: "col \<notin> set cols" using Cons.prems(2) by simp
  have comp: "map (\<lambda>(n, s). if n \<in> set cols then (n, to_numeric fl s) else (n, s)) ?d'
      = map (\<lambda>(n, s). if n \<in> set (col # cols) then (n, to_numeric fl s) else (n, s)) d"
    unfolding d' using notin by (auto simp: case_prod_unfold)
  show ?case
    using s IH comp by (simp add: getitem_def Let_def)
qed

lemma coerce_columns_all:
  assumes "distinct (columns d)"
  shows "fst (coerce_columns fl (columns d) d nc) = map (\<lambda>(n, s). (n, to_numeric fl s)) d"
proof -
  have "fst (coerce_columns fl (columns d) d nc) =
     map (\<lambda>(n, s). if n \<in> set (columns d) then (n, to_numeric fl s) else (n, s)) d"
    using assms by (intro coerce_columns_fst) (auto simp: columns_def)
  also have "\<dots> = map (\<lambda>(n, s). (n, to_numeric fl s)) d"
    by (intro map_cong) (auto simp: columns_def rev_image_eqI)
  finally show ?thesis .
qed

lemma wf_df_distinct: "wf_df d \<Longrightarrow> distinct (map fst d)"
  by (simp add: wf_df_def columns_def)

lemma wf_df_length: "wf_df d \<Longrightarrow> (n, s) \<in> set d \<Longrightarrow> length (cells s) = len_df d"
  by (auto simp: wf_df_def list_all_iff)

lemma len_df_map_to_numeric: "len_df (map (\<lambda>(n, s). (n, to_numeric fl s)) d) = len_df d"
  by (cases d) (auto simp: length_to_numeric)

lemma get_basic_statistics_snd:
  "distinct (columns d) \<Longrightarrow>
   snd (get_basic_statistics pd d) = map (\<lambda>(n, s). (n, to_numeric (floatify pd) s)) d"
  using coerce_columns_all[of d "floatify pd" "select_dtypes_number d"]
  by (simp add: get_basic_statistics_def Let_def case_prod_unfold)

lemma analyze_dataset_df:
  "distinct (columns d) \<Longrightarrow>
   fst (snd (analyze_dataset pd d)) = map (\<lambda>(n, s). (n, to_numeric (floatify pd) s)) d"
  using get_basic_statistics_snd[of d pd]
  by (simp add: analyze_dataset_def Let_def case_prod_unfold)

lemma analyze_dataset_missing:
  "missing_values (fst (analyze_dataset pd d)) =
   analyze_missing_values (fst (snd (analyze_dataset pd d)))"
  by (simp add: analyze_dataset_def Let_def case_prod_unfold)

lemma analyze_dataset_types:
  "column_types (fst (analyze_dataset pd d)) =
   get_column_types (fst (snd (analyze_dataset pd d)))"
  by (simp add: analyze_dataset_def Let_def case_prod_unfold)

lemma map_of_missing:
  assumes "distinct (map fst d)"
  shows "map_of (analyze_missing_values d) n =
     (case map_of d n of None \<Rightarrow> None
      | Some s \<Rightarrow> if fgt (missing_percentage d s) (Some 0)
                  then Some (missing_percentage d s) else None)"
  unfolding analyze_missing_values_def Let_def
  using map_of_filter_map[OF assms, of "\<lambda>v. fgt v (Some 0)" "missing_percentage d" n] .

lemma map_of_column_types:
  "map_of (get_column_types d) n = map_option (\<lambda>s. dtype_str (dtype s)) (map_of d n)"
  unfolding get_column_types_def by (induction d) auto

lemma to_numeric_unparseable:
  assumes "dtype s = Object" and "cells s \<noteq> []"
    and "\<forall>c \<in> set (cells s). coerce_cell fl c = NaN"
  shows "to_numeric fl s = \<lparr>dtype = Float64, cells = replicate (length (cells s)) NaN\<rparr>"
proof -
  let ?cs = "map (coerce_cell fl) (cells s)"
  have all: "?cs = replicate (length (cells s)) NaN"
    using assms(3) by (simp add: map_replicate_const[symmetric] cong: map_cong)
  have sf: "seen_float ?cs"
    unfolding all seen_float_def using assms(2) by (cases "cells s") (auto simp: list_ex_iff)
  show ?thesis
    using assms(1) sf unfolding to_numeric_def Let_def by (simp add: all)
qed

lemma isnull_sum_replicate: "isnull_sum \<lparr>dtype = t, cells = replicate k NaN\<rparr> = k"
  by (simp add: isnull_sum_def isna_def)

lemma map_of_dict_set: "map_of (dict_set d k v) c = (if c = k then Some v else map_of d c)"
proof (cases "k \<in> fst ` set d")
  case True
  have "map_of (map (\<lambda>(k', v'). if k' = k then (k', v) else (k', v')) d) c =
        (if c = k then (if k \<in> fst ` set d then Some v else None) else map_of d c)"
    by (induction d) (force split: if_splits)+
  with True show ?thesis by (simp add: dict_set_def)
next
  case False
  then have "map_of d k = None" by (simp add: map_of_eq_None_iff)
  with False show ?thesis by (auto simp: dict_set_def map_add_def split: option.splits)
qed

lemma outliers_loop_lookup:
  "distinct cols \<Longrightarrow>
   map_of (fst (outliers_loop pd d cols acc out)) c =
     (if c \<in> set cols
      then (case column_outliers pd d c of Inr (Some e) \<Rightarrow> Some e | _ \<Rightarrow> map_of acc c)
      else map_of acc c)"
proof (induction cols arbitrary: acc out)
  case Nil
  then show ?case by simp
next
  case (Cons col cols)
  then have d: "distinct cols" and notin: "col \<notin> set cols" by auto
  show ?case
  proof (cases "column_outliers pd d col")
    case (Inl e)
    then show ?thesis using Cons.IH[OF d] notin by auto
  next
    case (Inr r)
    show ?thesis
    proof (cases r)
      case None
      then show ?thesis using Inr Cons.IH[OF d] notin by auto
    next
      case (Some entry)
      then show ?thesis using Inr Cons.IH[OF d] notin
        by (auto simp: map_of_dict_set split: sum.splits option.splits)
    qed
  qed
qed

lemma outliers_loop_log:
  "set (snd (outliers_loop pd d cols acc out)) =
     set out \<union> {outlier_message c e | c e. c \<in> set cols \<and> column_outliers pd d c = Inl e}"
proof (induction cols arbitrary: acc out)
  case Nil
  then show ?case by simp
next
  case (Cons col cols)
  show ?case
  proof (cases "column_outliers pd d col")
    case (Inl e)
    then show ?thesis using Cons.IH by auto
  next
    case (Inr r)
    then show ?thesis using Cons.IH by (cases r) auto
  qed
qed

lemma distinct_select_dtypes_number:
  "distinct (columns d) \<Longrightarrow> distinct (select_dtypes_number d)"
  unfolding columns_def select_dtypes_number_def by (rule distinct_map_filter)

lemma detect_outliers_lookup:
  assumes "distinct (columns d)"
  shows "map_of (fst (detect_outliers pd d)) c =
     (if c \<in> set (select_dtypes_number d)
      then (case column_outliers pd d c of Inr (Some e) \<Rightarrow> Some e | _ \<Rightarrow> None)
      else None)"
  unfolding detect_outliers_def
  using outliers_loop_lookup[OF distinct_select_dtypes_number[OF assms], of pd d "[]" "[]" c]
  by (auto split: sum.splits option.splits)

lemma column_outliers_unfold:
  assumes "map_of d col = Some s"
    and "quantile pd s 0.25 = Inr Q1" and "quantile pd s 0.75 = Inr Q3"
    and "ar = arith pd"
    and "lower = fsub ar Q1 (fmul ar (Some 1.5) (fsub ar Q3 Q1))"
    and "upper = fadd ar Q3 (fmul ar (Some 1.5) (fsub ar Q3 Q1))"
    and "n = length (filter (is_outlier ar lower upper) (cells s))"
  shows "column_outliers pd d col =
     (if n = 0 then Inr None
      else if len_df d = 0 then Inl (Exception ''division by zero'')
      else Inr (Some \<lparr>total_outliers = n,
                       percentage = mul64 ar (truediv ar n (len_df d)) 100,
                       lower_bound = lower, upper_bound = upper\<rparr>))"
  unfolding assms(5-7) assms(4) column_outliers_def getitem_def Let_def
  by (simp only: assms(1-3) option.case sum.case)

lemma is_outlier_numbers:
  "is_outlier ar (fsub ar (Some q1) (fmul ar (Some 1.5) (fsub ar (Some q3) (Some q1))))
                 (fadd ar (Some q3) (fmul ar (Some 1.5) (fsub ar (Some q3) (Some q1)))) c \<longleftrightarrow>
   (\<exists>v. cell_float64 ar c = Some v \<and>
        (v < sub64 ar q1 (mul64 ar 1.5 (sub64 ar q3 q1)) \<or>
         add64 ar q3 (mul64 ar 1.5 (sub64 ar q3 q1)) < v))"
  by (cases "cell_float64 ar c")
     (simp_all add: is_outlier_def flt_def fgt_def fsub_def fadd_def fmul_def)

lemma is_outlier_nan:
  "Q1 = None \<or> Q3 = None \<Longrightarrow>
   \<not> is_outlier ar (fsub ar Q1 (fmul ar (Some 1.5) (fsub ar Q3 Q1)))
                    (fadd ar Q3 (fmul ar (Some 1.5) (fsub ar Q3 Q1))) c"
  by (cases Q1; cases Q3; cases "cell_float64 ar c")
     (simp_all add: is_outlier_def flt_def fgt_def fsub_def fadd_def fmul_def)

lemma column_outliers_SomeD:
  assumes "column_outliers pd d col = Inr (Some e)" and ar: "ar = arith pd"
  shows "\<exists>s q1 q3. map_of d col = Some s \<and>
           quantile pd s 0.25 = Inr (Some q1) \<and> quantile pd s 0.75 = Inr (Some q3) \<and>
           lower_bound e = Some (sub64 ar q1 (mul64 ar 1.5 (sub64 ar q3 q1))) \<and>
           upper_bound e = Some (add64 ar q3 (mul64 ar 1.5 (sub64 ar q3 q1))) \<and>
           total_outliers e =
             length (filter (\<lambda>c. \<exists>v. cell_float64 ar c = Some v \<and>
                        (v < sub64 ar q1 (mul64 ar 1.5 (sub64 ar q3 q1)) \<or>
                         add64 ar q3 (mul64 ar 1.5 (sub64 ar q3 q1)) < v)) (cells s)) \<and>
           0 < total_outliers e \<and> len_df d \<noteq> 0 \<and>
           percentage e = mul64 ar (truediv ar (total_outliers e) (len_df d)) 100"
proof -
  from assms(1) obtain s where s: "map_of d col = Some s"
    by (cases "map_of d col") (simp_all add: column_outliers_def getitem_def)
  from assms(1) s obtain Q1 where Q1: "quantile pd s 0.25 = Inr Q1"
    by (cases "quantile pd s 0.25") (simp_all add: column_outliers_def getitem_def)
  from assms(1) s Q1 obtain Q3 where Q3: "quantile pd s 0.75 = Inr Q3"
    by (cases "quantile pd s 0.75") (simp_all add: column_outliers_def getitem_def)
  define lower where "lower = fsub ar Q1 (fmul ar (Some 1.5) (fsub ar Q3 Q1))"
  define upper where "upper = fadd ar Q3 (fmul ar (Some 1.5) (fsub ar Q3 Q1))"
  define n where "n = length (filter (is_outlier ar lower upper) (cells s))"
  note U = column_outliers_unfold[OF s Q1 Q3 ar lower_def upper_def n_def]
  from assms(1) U have n: "n \<noteq> 0"
    by (cases "n = 0") simp_all
  from assms(1) U n have len: "len_df d \<noteq> 0"
    by (cases "len_df d = 0") simp_all
  from assms(1) U n len
  have e: "e = \<lparr>total_outliers = n, percentage = mul64 ar (truediv ar n (len_df d)) 100,
                lower_bound = lower, upper_bound = upper\<rparr>"
    by simp
  have "\<not> (Q1 = None \<or> Q3 = None)"
  proof
    assume h: "Q1 = None \<or> Q3 = None"
    have "filter (is_outlier ar lower upper) (cells s) = []"
      unfolding lower_def upper_def using is_outlier_nan[OF h] by (simp add: filter_empty_conv)
    then show False using n by (simp add: n_def)
  qed
  then obtain q1 q3 where q: "Q1 = Some q1" "Q3 = Some q3" by auto
  have lo: "lower = Some (sub64 ar q1 (mul64 ar 1.5 (sub64 ar q3 q1)))"
    and up: "upper = Some (add64 ar q3 (mul64 ar 1.5 (sub64 ar q3 q1)))"
    unfolding lower_def upper_def q by (simp_all add: fsub_def fadd_def fmul_def)
  have "is_outlier ar lower upper =
      (\<lambda>c. \<exists>v. cell_float64 ar c = Some v \<and>
            (v < sub64 ar q1 (mul64 ar 1.5 (sub64 ar q3 q1)) \<or>
             add64 ar q3 (mul64 ar 1.5 (sub64 ar q3 q1)) < v))"
    unfolding lower_def upper_def q using is_outlier_numbers[of ar q1 q3] by (intro ext) simp
  then have cnt: "n = length (filter (\<lambda>c. \<exists>v. cell_float64 ar c = Some v \<and>
                        (v < sub64 ar q1 (mul64 ar 1.5 (sub64 ar q3 q1)) \<or>
                         add64 ar q3 (mul64 ar 1.5 (sub64 ar q3 q1)) < v)) (cells s))"
    by (simp add: n_def)
  have t: "total_outliers e = n"
    and pc: "percentage e = mul64 ar (truediv ar n (len_df d)) 100"
    and l: "lower_bound e = lower" and u: "upper_bound e = upper"
    unfolding e by simp_all
  from Q1 Q3 q have Q1': "quantile pd s 0.25 = Inr (Some q1)" and Q3': "quantile pd s 0.75 = Inr (Some q3)"
    by simp_all
  have pos: "0 < total_outliers e" using n t by simp
  have L: "lower_bound e = Some (sub64 ar q1 (mul64 ar 1.5 (sub64 ar q3 q1)))" using l lo by simp
  have Up: "upper_bound e = Some (add64 ar q3 (mul64 ar 1.5 (sub64 ar q3 q1)))" using u up by simp
  have T: "total_outliers e =
             length (filter (\<lambda>c. \<exists>v. cell_float64 ar c = Some v \<and>
                        (v < sub64 ar q1 (mul64 ar 1.5 (sub64 ar q3 q1)) \<or>
                         add64 ar q3 (mul64 ar 1.5 (sub64 ar q3 q1)) < v)) (cells s))"
    using t cnt by simp
  have P: "percentage e = mul64 ar (truediv ar (total_outliers e) (len_df d)) 100"
    using pc t by simp
  show ?thesis
  proof (intro exI conjI)
    show "map_of d col = Some s" by fact
    show "quantile pd s 0.25 = Inr (Some q1)" by fact
    show "quantile pd s 0.75 = Inr (Some q3)" by fact
    show "lower_bound e = Some (sub64 ar q1 (mul64 ar 1.5 (sub64 ar q3 q1)))" by fact
    show "upper_bound e = Some (add64 ar q3 (mul64 ar 1.5 (sub64 ar q3 q1)))" by fact
    show "total_outliers e =
             length (filter (\<lambda>c. \<exists>v. cell_float64 ar c = Some v \<and>
                        (v < sub64 ar q1 (mul64 ar 1.5 (sub64 ar q3 q1)) \<or>
                         add64 ar q3 (mul64 ar 1.5 (sub64 ar q3 q1)) < v)) (cells s))"
      by fact
    show "0 < total_outliers e" by fact
    show "len_df d \<noteq> 0" by fact
    show "percentage e = mul64 ar (truediv ar (total_outliers e) (len_df d)) 100" by fact
  qed
qed

lemma column_outliers_flagged_iff:
  assumes "map_of d col = Some s" and "length (cells s) = len_df d"
    and "quantile pd s 0.25 = Inr Q1" and "quantile pd s 0.75 = Inr Q3"
    and ar: "ar = arith pd"
  shows "(\<exists>e. column_outliers pd d col = Inr (Some e)) \<longleftrightarrow>
         (\<exists>c \<in> set (cells s).
            is_outlier ar (fsub ar Q1 (fmul ar (Some 1.5) (fsub ar Q3 Q1)))
                          (fadd ar Q3 (fmul ar (Some 1.5) (fsub ar Q3 Q1))) c)"
proof -
  define lower where "lower = fsub ar Q1 (fmul ar (Some 1.5) (fsub ar Q3 Q1))"
  define upper where "upper = fadd ar Q3 (fmul ar (Some 1.5) (fsub ar Q3 Q1))"
  define n where "n = length (filter (is_outlier ar lower upper) (cells s))"
  note U = column_outliers_unfold[OF assms(1,3,4) ar lower_def upper_def n_def]
  have n: "n \<noteq> 0 \<longleftrightarrow> (\<exists>c \<in> set (cells s). is_outlier ar lower upper c)"
    unfolding n_def by (simp add: filter_empty_conv)
  have len: "len_df d \<noteq> 0" if "n \<noteq> 0"
  proof -
    from that n have "cells s \<noteq> []" by auto
    with assms(2)[symmetric] show ?thesis by simp
  qed
  have "(\<exists>e. column_outliers pd d col = Inr (Some e)) \<longleftrightarrow> n \<noteq> 0"
  proof (cases "n = 0")
    case True
    then show ?thesis unfolding U by simp
  next
    case False
    with len have "len_df d \<noteq> 0" by simp
    with False show ?thesis unfolding U by simp
  qed
  with n show ?thesis unfolding lower_def upper_def by simp
qed

lemmas eval_outliers =
  column_outliers_def getitem_def pandas_model_def pandas_failing_def quantile_failing_def
  quantile_linear_def int_series_def present_values_def Let_def exact_arith_def
  fsub_def fadd_def fmul_def is_outlier_def flt_def fgt_def

lemma retry_1:
  "retry f 1 st =
     (case f st of (Inr x, st') \<Rightarrow> (Inr x, st')
      | (Inl e, st') \<Rightarrow> retry f 2 (st'\<lparr>slept := slept st' @ [4]\<rparr>))"
proof -
  have two: "(1::nat) + 1 = 2" by simp
  have w: "wait_exponential 1 4 10 1 = 4" by (simp add: wait_exponential_def)
  have s: "\<not> stop_after_attempt 3 1" by (simp add: stop_after_attempt_def)
  show ?thesis
    by (subst retry.simps) (simp only: two w s if_False)
qed

lemma retry_2:
  "retry f 2 st =
     (case f st of (Inr x, st') \<Rightarrow> (Inr x, st')
      | (Inl e, st') \<Rightarrow> retry f 3 (st'\<lparr>slept := slept st' @ [4]\<rparr>))"
proof -
  have three: "(2::nat) + 1 = 3" by simp
  have w: "wait_exponential 1 4 10 2 = 4" by (simp add: wait_exponential_def)
  have s: "\<not> stop_after_attempt 3 2" by (simp add: stop_after_attempt_def)
  show ?thesis
    by (subst retry.simps) (simp only: three w s if_False)
qed

lemma retry_3:
  "retry f 3 st =
     (case f st of (Inr x, st') \<Rightarrow> (Inr x, st') | (Inl e, st') \<Rightarrow> (Inl RetryError, st'))"
proof -
  have s: "stop_after_attempt 3 3" by (simp add: stop_after_attempt_def)
  show ?thesis
    by (subst retry.simps) (simp only: s if_True)
qed

lemma attempt_other:
  assumes "other_failure env (requests_made st)"
  shows "\<exists>e. narrative_attempt env a an st = (Inl e, st\<lparr>requests_made := requests_made st + 1\<rparr>)"
proof (cases "request_narrative (post env (requests_made st))")
  case (Inl e)
  with assms have "\<not> is_request_exception e" by (simp add: other_failure_def)
  with Inl show ?thesis
    by (intro exI[of _ e]) (simp add: narrative_attempt_def Let_def)
next
  case (Inr t)
  with assms show ?thesis by (simp add: other_failure_def)
qed

lemma attempt_network:
  assumes "network_failure env (requests_made st)"
  shows "\<exists>e. narrative_attempt env a an st =
           (Inr (),
            write_file (readme_path (dataset_name a))
              (fallback_report (dataset_name a)
                 (total_rows (basic_stats an)) (total_columns (basic_stats an)))
              (print (''Error generating narrative: '' @ str_exn e)
                 (st\<lparr>requests_made := requests_made st + 1\<rparr>)))"
proof (cases "request_narrative (post env (requests_made st))")
  case (Inl e)
  with assms have "is_request_exception e" by (simp add: network_failure_def)
  with Inl show ?thesis
    by (intro exI[of _ e]) (simp add: narrative_attempt_def Let_def)
next
  case (Inr t)
  with assms show ?thesis by (simp add: network_failure_def)
qed

lemma attempt_ok:
  assumes "request_narrative (post env (requests_made st)) = Inr t"
  shows "narrative_attempt env a an st =
           (Inr (), write_file (readme_path (dataset_name a)) t
                      (st\<lparr>requests_made := requests_made st + 1\<rparr>))"
  using assms by (simp add: narrative_attempt_def Let_def)

lemma file_content_write [simp]: "file_content (write_file p t st) p = Some t"
  by (simp add: file_content_def write_file_def)

lemma retry_other_1:
  assumes "other_failure env (requests_made st)"
  shows "retry (narrative_attempt env a an) 1 st =
         retry (narrative_attempt env a an) 2
           (st\<lparr>requests_made := requests_made st + 1, slept := slept st @ [4]\<rparr>)"
proof -
  from attempt_other[OF assms(1), of a an] obtain e where
    e: "narrative_attempt env a an st = (Inl e, st\<lparr>requests_made := requests_made st + 1\<rparr>)" ..
  show ?thesis by (simp only: retry_1 e prod.case sum.case) simp
qed

lemma retry_other_2:
  assumes "other_failure env (requests_made st)"
  shows "retry (narrative_attempt env a an) 2 st =
         retry (narrative_attempt env a an) 3
           (st\<lparr>requests_made := requests_made st + 1, slept := slept st @ [4]\<rparr>)"
proof -
  from attempt_other[OF assms(1), of a an] obtain e where
    e: "narrative_attempt env a an st = (Inl e, st\<lparr>requests_made := requests_made st + 1\<rparr>)" ..
  show ?thesis by (simp only: retry_2 e prod.case sum.case) simp
qed

lemma retry_other_3:
  assumes "other_failure env (requests_made st)"
  shows "retry (narrative_attempt env a an) 3 st =
         (Inl RetryError, st\<lparr>requests_made := requests_made st + 1\<rparr>)"
proof -
  from attempt_other[OF assms(1), of a an] obtain e where
    e: "narrative_attempt env a an st = (Inl e, st\<lparr>requests_made := requests_made st + 1\<rparr>)" ..
  show ?thesis by (simp only: retry_3 e prod.case sum.case)
qed

lemma retry_returns:
  assumes "narrative_attempt env a an st = (Inr (), st')"
  shows "retry (narrative_attempt env a an) 1 st = (Inr (), st')"
    and "retry (narrative_attempt env a an) 2 st = (Inr (), st')"
    and "retry (narrative_attempt env a an) 3 st = (Inr (), st')"
  by (simp_all only: retry_1 retry_2 retry_3 assms prod.case sum.case)

lemma retry_network:
  assumes "network_failure env (requests_made st)"
  shows "\<exists>e. (\<forall>n \<in> {1, 2, 3}. retry (narrative_attempt env a an) n st =
           (Inr (),
            write_file (readme_path (dataset_name a))
              (fallback_report (dataset_name a)
                 (total_rows (basic_stats an)) (total_columns (basic_stats an)))
              (print (''Error generating narrative: '' @ str_exn e)
                 (st\<lparr>requests_made := requests_made st + 1\<rparr>))))"
proof -
  from attempt_network[OF assms(1), of a an] obtain e where
    e: "narrative_attempt env a an st =
           (Inr (),
            write_file (readme_path (dataset_name a))
              (fallback_report (dataset_name a)
                 (total_rows (basic_stats an)) (total_columns (basic_stats an)))
              (print (''Error generating narrative: '' @ str_exn e)
                 (st\<lparr>requests_made := requests_made st + 1\<rparr>)))" ..
  show ?thesis
    using retry_returns[OF e] by (intro exI[of _ e]) simp
qed

lemma fallback_report_contains:
  "sublist name (fallback_report name rows cols)"
  "sublist (show_nat rows) (fallback_report name rows cols)"
  "sublist (show_nat cols) (fallback_report name rows cols)"
  "sublist failure_note (fallback_report name rows cols)"
proof -
  show "sublist name (fallback_report name rows cols)"
    unfolding fallback_report_def sublist_def by (metis append.assoc)
  show "sublist (show_nat rows) (fallback_report name rows cols)"
    unfolding fallback_report_def sublist_def by (metis append.assoc)
  show "sublist (show_nat cols) (fallback_report name rows cols)"
    unfolding fallback_report_def sublist_def by (metis append.assoc)
  show "sublist failure_note (fallback_report name rows cols)"
    unfolding fallback_report_def sublist_def by (metis append.assoc append_Nil2)
qed

lemma generate_narrative_network_failure:
  assumes "k < 3"
    and "\<forall>j<k. other_failure env (requests_made st + j)"
    and "network_failure env (requests_made st + k)"
  shows "fst (generate_narrative env a an st) = Inr () \<and>
         file_content (snd (generate_narrative env a an st)) (readme_path (dataset_name a)) =
           Some (fallback_report (dataset_name a)
                   (total_rows (basic_stats an)) (total_columns (basic_stats an)))"
proof -
  let ?f = "narrative_attempt env a an"
  let ?nx = "\<lambda>s. s\<lparr>requests_made := requests_made s + 1, slept := slept s @ [4]\<rparr>"
  let ?P = "\<lambda>r. fst r = Inr () \<and>
         file_content (snd r) (readme_path (dataset_name a)) =
           Some (fallback_report (dataset_name a)
                   (total_rows (basic_stats an)) (total_columns (basic_stats an)))"
  have net: "?P (retry ?f n s)" if "network_failure env (requests_made s)" "n \<in> {1, 2, 3}" for n s
  proof -
    from retry_network[OF that(1), of a an] obtain e where
      "\<forall>n \<in> {1, 2, 3}. retry ?f n s =
           (Inr (),
            write_file (readme_path (dataset_name a))
              (fallback_report (dataset_name a)
                 (total_rows (basic_stats an)) (total_columns (basic_stats an)))
              (print (''Error generating narrative: '' @ str_exn e)
                 (s\<lparr>requests_made := requests_made s + 1\<rparr>)))" ..
    with that(2) have "retry ?f n s =
           (Inr (),
            write_file (readme_path (dataset_name a))
              (fallback_report (dataset_name a)
                 (total_rows (basic_stats an)) (total_columns (basic_stats an)))
              (print (''Error generating narrative: '' @ str_exn e)
                 (s\<lparr>requests_made := requests_made s + 1\<rparr>)))" by blast
    then show ?thesis by simp
  qed
  from assms(1) consider "k = 0" | "k = 1" | "k = 2" by linarith
  then show ?thesis
  proof cases
    case 1
    with assms(3) have "network_failure env (requests_made st)" by simp
    from net[OF this, of 1] show ?thesis by (simp add: generate_narrative_def)
  next
    case 2
    with assms have o0: "other_failure env (requests_made st)"
      and n1: "network_failure env (requests_made (?nx st))" by auto
    have "retry ?f 1 st = retry ?f 2 (?nx st)"
      using retry_other_1[OF o0, of a an] .
    with net[OF n1, of 2] show ?thesis by (simp add: generate_narrative_def)
  next
    case 3
    from assms(2) 3 have "other_failure env (requests_made st + 0)" "other_failure env (requests_made st + 1)"
      by (metis pos2, metis one_less_numeral_iff semiring_norm(76))
    then have o0: "other_failure env (requests_made st)"
      and o1: "other_failure env (requests_made (?nx st))" by simp_all
    from assms(3) 3 have n2: "network_failure env (requests_made (?nx (?nx st)))"
      by (simp add: add.commute)
    have "retry ?f 1 st = retry ?f 2 (?nx st)"
      using retry_other_1[OF o0, of a an] .
    also have "\<dots> = retry ?f 3 (?nx (?nx st))"
      using retry_other_2[OF o1, of a an] .
    finally show ?thesis using net[OF n2, of 3] by (simp add: generate_narrative_def)
  qed
qed

lemma requests_made_prints [simp]: "requests_made (prints out st) = requests_made st"
  by (simp add: prints_def)

lemma requests_made_visualize [simp]: "requests_made (visualize_data env a st) = requests_made st"
  by (cases "render env") (simp_all add: visualize_data_def write_file_def print_def)

lemma run_analysis_unfold:
  assumes "makedirs env (dataset_name a) = Inr ()"
  shows "\<exists>a' an st2. run_analysis env a st = generate_narrative env a' an st2 \<and>
           dataset_name a' = dataset_name a \<and> requests_made st2 = requests_made st \<and>
           an = fst (analyze_dataset (lib env) (df a))"
proof -
  let ?r = "analyze_dataset (lib env) (df a)"
  let ?a' = "a\<lparr>df := fst (snd ?r)\<rparr>"
  let ?st2 = "visualize_data env ?a' (prints (snd (snd ?r)) st)"
  have "run_analysis env a st = generate_narrative env ?a' (fst ?r) ?st2"
    using assms by (simp add: run_analysis_def Let_def case_prod_unfold)
  moreover have "dataset_name ?a' = dataset_name a" by simp
  moreover have "requests_made ?st2 = requests_made st" by simp
  ultimately show ?thesis by blast
qed

lemma file_content_print [simp]: "file_content (print l st) p = file_content st p"
  by (simp add: file_content_def print_def)

lemma attempt_not_other:
  assumes "\<not> other_failure env (requests_made st)"
  shows "\<exists>st'. narrative_attempt env a an st = (Inr (), st') \<and>
               file_content st' (readme_path (dataset_name a)) \<noteq> None"
proof (cases "request_narrative (post env (requests_made st))")
  case (Inl e)
  with assms have "network_failure env (requests_made st)"
    by (simp add: other_failure_def network_failure_def)
  from attempt_network[OF this, of a an] show ?thesis by auto
next
  case (Inr t)
  from attempt_ok[OF this, of a an] show ?thesis by simp
qed

lemma generate_narrative_outcomes:
  "(fst (generate_narrative env a an st) = Inr () \<and>
    file_content (snd (generate_narrative env a an st)) (readme_path (dataset_name a)) \<noteq> None) \<or>
   (fst (generate_narrative env a an st) = Inl RetryError \<and>
    (\<forall>j<3. other_failure env (requests_made st + j)))"
proof -
  let ?f = "narrative_attempt env a an"
  let ?nx = "\<lambda>s. s\<lparr>requests_made := requests_made s + 1, slept := slept s @ [4]\<rparr>"
  let ?ok = "\<lambda>r. fst r = Inr () \<and> file_content (snd r) (readme_path (dataset_name a)) \<noteq> None"
  have ret: "?ok (retry ?f 1 s) \<and> ?ok (retry ?f 2 s) \<and> ?ok (retry ?f 3 s)"
    if "\<not> other_failure env (requests_made s)" for s
  proof -
    from attempt_not_other[OF that, of a an] obtain s' where
      s': "?f s = (Inr (), s')" "file_content s' (readme_path (dataset_name a)) \<noteq> None" by blast
    from retry_returns[OF s'(1)] s'(2) show ?thesis by simp
  qed
  show ?thesis
  proof (cases "other_failure env (requests_made st)")
    case False
    from ret[OF this] show ?thesis by (simp add: generate_narrative_def)
  next
    case o0: True
    have r1: "retry ?f 1 st = retry ?f 2 (?nx st)" using retry_other_1[OF o0, of a an] .
    show ?thesis
    proof (cases "other_failure env (requests_made (?nx st))")
      case False
      from ret[OF this] r1 show ?thesis by (simp add: generate_narrative_def)
    next
      case o1: True
      have r2: "retry ?f 2 (?nx st) = retry ?f 3 (?nx (?nx st))"
        using retry_other_2[OF o1, of a an] .
      show ?thesis
      proof (cases "other_failure env (requests_made (?nx (?nx st)))")
        case False
        from ret[OF this] r1 r2 show ?thesis by (simp add: generate_narrative_def)
      next
        case o2: True
        have r3: "retry ?f 3 (?nx (?nx st)) =
                  (Inl RetryError, (?nx (?nx st))\<lparr>requests_made := requests_made (?nx (?nx st)) + 1\<rparr>)"
          using retry_other_3[OF o2, of a an] .
        have all: "\<forall>j<3. other_failure env (requests_made st + j)"
        proof (intro allI impI)
          fix j :: nat assume "j < 3"
          then consider "j = 0" | "j = 1" | "j = 2" by linarith
          then show "other_failure env (requests_made st + j)"
            using o0 o1 o2 by cases (simp_all add: add.commute)
        qed
        from r1 r2 r3 all show ?thesis by (simp add: generate_narrative_def)
      qed
    qed
  qed
qed

lemma requests_made_init [simp]: "requests_made (snd (init env path st)) = requests_made st"
  by (simp add: init_def split: prod.splits sum.splits)

lemma dataset_name_analysis [simp]: "dataset_name (a\<lparr>df := d\<rparr>) = dataset_name a"
  by simp

lemma run_analysis_outcomes:
  "(\<exists>e. makedirs env (dataset_name a) = Inl e \<and> run_analysis env a st = (Inl e, st)) \<or>
   (fst (run_analysis env a st) = Inr () \<and>
    file_content (snd (run_analysis env a st)) (readme_path (dataset_name a)) \<noteq> None) \<or>
   (fst (run_analysis env a st) = Inl RetryError \<and>
    (\<forall>j<3. other_failure env (requests_made st + j)))"
proof (cases "makedirs env (dataset_name a)")
  case (Inl e)
  then show ?thesis by (simp add: run_analysis_def)
next
  case (Inr u)
  then have "makedirs env (dataset_name a) = Inr ()" by simp
  from run_analysis_unfold[OF this, of st] obtain a' an st2 where
    r: "run_analysis env a st = generate_narrative env a' an st2"
    and n: "dataset_name a' = dataset_name a"
    and q: "requests_made st2 = requests_made st" by blast
  from generate_narrative_outcomes[of env a' an st2] show ?thesis
    unfolding r n q by blast
qed

lemma encodings_to_try_order:
  "encodings_to_try d = d # filter (\<lambda>e. e \<noteq> d) fallback_encodings"
  by (simp add: encodings_to_try_def fromkeys_def fallback_encodings_def)

lemma try_encodings_first_success:
  assumes "\<forall>e \<in> set pre. \<exists>x. rc e = Inl x \<and> is_read_failure x"
    and "rc enc = Inr t"
  shows "fst (try_encodings rc (pre @ enc # rest) out) = Some (Inr t)"
  using assms by (induction pre arbitrary: out) auto

lemma try_encodings_other_error:
  assumes "\<forall>e \<in> set pre. \<exists>x. rc e = Inl x \<and> is_read_failure x"
    and "rc enc = Inl x" and "\<not> is_read_failure x"
  shows "fst (try_encodings rc (pre @ enc # rest) out) = Some (Inl x)"
  using assms by (induction pre arbitrary: out) auto

lemma try_encodings_all_fail:
  assumes "\<forall>e \<in> set encs. \<exists>x. rc e = Inl x \<and> is_read_failure x"
  shows "fst (try_encodings rc encs out) = None"
  using assms by (induction encs arbitrary: out) auto

lemma sublist_intersperse_sep:
  "s \<in> set ss \<Longrightarrow> sublist s (intersperse_sep sep ss)"
proof (induction sep ss rule: intersperse_sep.induct)
  case (1 sep)
  then show ?case by simp
next
  case (2 sep x)
  then show ?case by simp
next
  case (3 sep x y ys)
  show ?case
  proof (cases "s = x")
    case True
    have "sublist x (x @ sep @ intersperse_sep sep (y # ys))"
      by (rule sublist_append_rightI)
    with True show ?thesis by simp
  next
    case False
    with 3 have "sublist s (intersperse_sep sep (y # ys))" by simp
    then have "sublist s (x @ sep @ intersperse_sep sep (y # ys))"
      by (simp add: sublist_append)
    then show ?thesis by simp
  qed
qed

lemma all_strings_map_Some: "all_strings (map Some ss) = Some ss"
  by (induction ss) auto

lemma encodings_to_try_Some:
  "encodings_to_try (Some d) =
     map Some (d # filter (\<lambda>s. s \<noteq> d)
       [''utf-8'', ''latin-1'', ''iso-8859-1'', ''cp1252'', ''utf-16'', ''ascii''])"
  unfolding encodings_to_try_order fallback_encodings_def by simp

lemma read_csv_robust_all_fail:
  assumes "\<forall>e \<in> set (encodings_to_try (Some d)). \<exists>x. rc e = Inl x \<and> is_read_failure x"
  shows "\<exists>msg. fst (read_csv_robust (Inr (Some d)) rc) = Inl (ValueError msg) \<and>
           (\<forall>s. Some s \<in> set (encodings_to_try (Some d)) \<longrightarrow> sublist s msg)"
proof -
  let ?encs = "encodings_to_try (Some d)"
  define ss where "ss = d # filter (\<lambda>s. s \<noteq> d)
       [''utf-8'', ''latin-1'', ''iso-8859-1'', ''cp1252'', ''utf-16'', ''ascii'']"
  have ss: "?encs = map Some ss"
    unfolding ss_def by (rule encodings_to_try_Some)
  have "fst (try_encodings rc ?encs []) = None"
    using try_encodings_all_fail[OF assms, of "[]"] .
  then obtain out where t: "try_encodings rc ?encs [] = (None, out)"
    by (cases "try_encodings rc ?encs []") simp
  have j: "join_encodings ?encs = Inr (intersperse_sep '', '' ss)"
    unfolding ss join_encodings_def all_strings_map_Some by simp
  define pre where "pre = ''Could not read the CSV file with any of the tried encodings. '' @ ''Tried: ''"
  have r: "read_csv_robust (Inr (Some d)) rc = (Inl (ValueError (pre @ intersperse_sep '', '' ss)), out)"
    unfolding read_csv_robust_def pre_def by (simp only: sum.case Let_def t j prod.case option.case append_assoc)
  have "sublist s (pre @ intersperse_sep '', '' ss)" if "Some s \<in> set ?encs" for s
  proof -
    from that have "s \<in> set ss" unfolding ss by auto
    from sublist_intersperse_sep[OF this, of "'', ''"] show ?thesis
      by (simp add: sublist_append)
  qed
  with r show ?thesis by (intro exI[of _ "pre @ intersperse_sep '', '' ss"]) simp
qed

lemma detect_outliers_failure_local:
  assumes "distinct (columns d)"
    and "col \<in> set (select_dtypes_number d)"
    and "column_outliers pd d col = Inl err"
  shows "map_of (fst (detect_outliers pd d)) col = None \<and>
         outlier_message col err \<in> set (snd (detect_outliers pd d)) \<and>
         (\<forall>c \<in> set (select_dtypes_number d). c \<noteq> col \<longrightarrow>
            map_of (fst (detect_outliers pd d)) c =
              (case column_outliers pd d c of Inr (Some e) \<Rightarrow> Some e | _ \<Rightarrow> None))"
proof (intro conjI ballI impI)
  show "map_of (fst (detect_outliers pd d)) col = None"
    using detect_outliers_lookup[OF assms(1), of pd col] assms(2,3) by simp
  show "outlier_message col err \<in> set (snd (detect_outliers pd d))"
    unfolding detect_outliers_def outliers_loop_log using assms(2,3) by auto
next
  fix c assume "c \<in> set (select_dtypes_number d)" "c \<noteq> col"
  then show "map_of (fst (detect_outliers pd d)) c =
              (case column_outliers pd d c of Inr (Some e) \<Rightarrow> Some e | _ \<Rightarrow> None)"
    using detect_outliers_lookup[OF assms(1), of pd c] by simp
qed

lemma analyze_dataset_sections:
  "basic_stats (fst (analyze_dataset pd d0)) = fst (get_basic_statistics pd d0)"
  "fst (snd (analyze_dataset pd d0)) = snd (get_basic_statistics pd d0)"
  "correlations (fst (analyze_dataset pd d0)) =
     compute_correlations pd (fst (snd (analyze_dataset pd d0)))"
  "outliers (fst (analyze_dataset pd d0)) =
     fst (detect_outliers pd (fst (snd (analyze_dataset pd d0))))"
  "snd (snd (analyze_dataset pd d0)) =
     snd (detect_outliers pd (fst (snd (analyze_dataset pd d0))))"
  by (simp_all add: analyze_dataset_def Let_def case_prod_unfold)

lemma columns_coerced:
  "columns (map (\<lambda>(n, s). (n, to_numeric fl s)) d) = columns d"
  by (simp add: columns_def case_prod_unfold comp_def)

lemma fallback_report_text:
  "fallback_report name rows cols =
     ''# Dataset Analysis for '' @ name @ ''\<newline>\<newline>'' @
     ''Total Rows: '' @ show_nat rows @ ''\<newline>'' @
     ''Total Columns: '' @ show_nat cols @ ''\<newline>\<newline>'' @
     ''Automated analysis could not generate a detailed narrative.''"
  by (simp add: fallback_report_def nl_def failure_note_def)

lemma generate_narrative_exhausted:
  assumes "\<forall>j<3. other_failure env (requests_made st + j)"
  shows "generate_narrative env a an st =
           (Inl RetryError,
            st\<lparr>requests_made := requests_made st + 3, slept := slept st @ [4, 4]\<rparr>)"
proof -
  let ?f = "narrative_attempt env a an"
  let ?nx = "\<lambda>s. s\<lparr>requests_made := requests_made s + 1, slept := slept s @ [4]\<rparr>"
  have "(0::nat) < 3" "(1::nat) < 3" "(2::nat) < 3" by simp_all
  with assms have "other_failure env (requests_made st + 0)"
    "other_failure env (requests_made st + 1)" "other_failure env (requests_made st + 2)"
    by blast+
  then have o0: "other_failure env (requests_made st)"
    and o1: "other_failure env (requests_made (?nx st))"
    and o2: "other_failure env (requests_made (?nx (?nx st)))"
    by (simp_all add: add.commute)
  have "retry ?f 1 st = retry ?f 2 (?nx st)"
    using retry_other_1[OF o0, of a an] .
  also have "\<dots> = retry ?f 3 (?nx (?nx st))"
    using retry_other_2[OF o1, of a an] .
  also have "\<dots> = (Inl RetryError, (?nx (?nx st))\<lparr>requests_made := requests_made (?nx (?nx st)) + 1\<rparr>)"
    using retry_other_3[OF o2, of a an] .
  finally show ?thesis by (simp add: generate_narrative_def)
qed

section \<open>The frame effect of the basic statistics\<close>

text \<open>
  Claim C2.  On every table (distinct column names, columns of equal length), the
  basic-statistics computation leaves the table with every column replaced by its numeric
  coercion.  Consequently, for a text column with at least one row none of whose values
  survives the coercion, the table that the later sections read holds an all-missing
  float column under that name: the missing-values section reports it at 100 and the
  column-type section labels it \<^verbatim>\<open>float64\<close>.
\<close>

theorem basic_statistics_coerces_every_column:
  assumes "wf_df d"
  shows "snd (get_basic_statistics pd d) = map (\<lambda>(n, s). (n, to_numeric (floatify pd) s)) d \<and>
    (\<forall>(n, s) \<in> set d.
       dtype s = Object \<and> cells s \<noteq> [] \<and> (\<forall>c \<in> set (cells s). coerce_cell (floatify pd) c = NaN) \<longrightarrow>
       (case analyze_dataset pd d of (an, d', out) \<Rightarrow>
          map_of d' n = Some \<lparr>dtype = Float64, cells = replicate (len_df d) NaN\<rparr> \<and>
          map_of (missing_values an) n = Some (Some 100) \<and>
          map_of (column_types an) n = Some ''float64''))"
proof (intro conjI ballI)
  have dist: "distinct (columns d)" using assms by (simp add: wf_df_def)
  show "snd (get_basic_statistics pd d) = map (\<lambda>(n, s). (n, to_numeric (floatify pd) s)) d"
    using get_basic_statistics_snd[OF dist] .
next
  fix x assume x: "x \<in> set d"
  obtain n s where ns: "x = (n, s)" by (cases x)
  have dist: "distinct (columns d)" using assms by (simp add: wf_df_def)
  let ?fl = "floatify pd"
  let ?d' = "map (\<lambda>(n, s). (n, to_numeric ?fl s)) d"
  have d': "fst (snd (analyze_dataset pd d)) = ?d'" using analyze_dataset_df[OF dist] .
  have dist': "distinct (map fst ?d')" using dist by (simp add: columns_def case_prod_unfold comp_def)
  have look: "map_of d n = Some s" using x ns dist by (simp add: columns_def)
  have look': "map_of ?d' n = Some (to_numeric ?fl s)"
    using look by (simp add: map_of_map)
  have len: "length (cells s) = len_df d" using wf_df_length[OF assms] x ns by simp
  {
    assume h: "dtype s = Object" "cells s \<noteq> []" "\<forall>c \<in> set (cells s). coerce_cell ?fl c = NaN"
    have tn: "to_numeric ?fl s = \<lparr>dtype = Float64, cells = replicate (len_df d) NaN\<rparr>"
      using to_numeric_unparseable[OF h] len by simp
    have pos: "len_df d \<noteq> 0" using h(2) len[symmetric] by simp
    have pct: "missing_percentage ?d' (to_numeric ?fl s) = Some 100"
      using pos by (simp add: missing_percentage_def len_df_map_to_numeric tn isnull_sum_replicate)
    have m: "map_of (analyze_missing_values ?d') n = Some (Some 100)"
      using map_of_missing[OF dist', of n] look' pct by (simp add: fgt_def)
    have t: "map_of (get_column_types ?d') n = Some ''float64''"
      using look' tn by (simp add: map_of_column_types)
    have "case analyze_dataset pd d of (an, d', out) \<Rightarrow>
          map_of d' n = Some \<lparr>dtype = Float64, cells = replicate (len_df d) NaN\<rparr> \<and>
          map_of (missing_values an) n = Some (Some 100) \<and>
          map_of (column_types an) n = Some ''float64''"
      using m t look' tn d' analyze_dataset_missing[of pd d] analyze_dataset_types[of pd d]
      by (simp add: case_prod_unfold)
  }
  then show "case x of (n, s) \<Rightarrow>
       dtype s = Object \<and> cells s \<noteq> [] \<and> (\<forall>c \<in> set (cells s). coerce_cell (floatify pd) c = NaN) \<longrightarrow>
       (case analyze_dataset pd d of (an, d', out) \<Rightarrow>
          map_of d' n = Some \<lparr>dtype = Float64, cells = replicate (len_df d) NaN\<rparr> \<and>
          map_of (missing_values an) n = Some (Some 100) \<and>
          map_of (column_types an) n = Some ''float64'')"
    using ns by simp
qed

theorem basic_statistics_coerces_every_column_witness:
  "wf_df df_one_numeric_one_text \<and>
   snd (get_basic_statistics (pandas_model nan_kernel) df_one_numeric_one_text) =
     [(''x'', int_series [1, 2, 3]), (''s'', \<lparr>dtype = Float64, cells = [NaN, NaN, NaN]\<rparr>)] \<and>
   map_of (missing_values (fst (analyze_dataset (pandas_model nan_kernel) df_one_numeric_one_text))) ''s''
     = Some (Some 100) \<and>
   map_of (column_types (fst (analyze_dataset (pandas_model nan_kernel) df_one_numeric_one_text))) ''s''
     = Some ''float64''"
proof -
  let ?pd = "pandas_model nan_kernel"
  let ?s = "text_series [''a'', ''b'', ''c'']"
  have wf: "wf_df df_one_numeric_one_text"
    by (simp add: wf_df_def df_one_numeric_one_text_def columns_def wf_series_def
        int_series_def text_series_def)
  have mem: "(''s'', ?s) \<in> set df_one_numeric_one_text"
    by (simp add: df_one_numeric_one_text_def)
  have hyp: "dtype ?s = Object \<and> cells ?s \<noteq> [] \<and>
             (\<forall>c \<in> set (cells ?s). coerce_cell (floatify ?pd) c = NaN)"
    by (simp add: text_series_def pandas_model_def parse_digits_def is_digit_def)
  note T = basic_statistics_coerces_every_column[OF wf, of ?pd]
  from T have A: "snd (get_basic_statistics ?pd df_one_numeric_one_text) =
      map (\<lambda>(n, s). (n, to_numeric (floatify ?pd) s)) df_one_numeric_one_text"
    by (rule conjunct1)
  from T have "\<forall>(n, s) \<in> set df_one_numeric_one_text.
       dtype s = Object \<and> cells s \<noteq> [] \<and> (\<forall>c \<in> set (cells s). coerce_cell (floatify ?pd) c = NaN) \<longrightarrow>
       (case analyze_dataset ?pd df_one_numeric_one_text of (an, d', out) \<Rightarrow>
          map_of d' n = Some \<lparr>dtype = Float64, cells = replicate (len_df df_one_numeric_one_text) NaN\<rparr> \<and>
          map_of (missing_values an) n = Some (Some 100) \<and>
          map_of (column_types an) n = Some ''float64'')"
    by (rule conjunct2)
  from bspec[OF this mem] hyp
  have B: "case analyze_dataset ?pd df_one_numeric_one_text of (an, d', out) \<Rightarrow>
          map_of d' ''s'' = Some \<lparr>dtype = Float64, cells = replicate (len_df df_one_numeric_one_text) NaN\<rparr> \<and>
          map_of (missing_values an) ''s'' = Some (Some 100) \<and>
          map_of (column_types an) ''s'' = Some ''float64''"
    by simp
  have C: "map (\<lambda>(n, s). (n, to_numeric (floatify ?pd) s)) df_one_numeric_one_text =
     [(''x'', int_series [1, 2, 3]), (''s'', \<lparr>dtype = Float64, cells = [NaN, NaN, NaN]\<rparr>)]"
    by (simp add: df_one_numeric_one_text_def to_numeric_def int_series_def text_series_def
        pandas_model_def parse_digits_def is_digit_def seen_float_def)
  show ?thesis using wf A B C by (simp add: case_prod_unfold)
qed

section \<open>Missing values\<close>

text \<open>
  Claim C6.  On every table with distinct column names, a column is in the missing-values
  section exactly when its percentage of missing entries is a number strictly greater
  than zero, and the value reported for a column in the section is its count of missing
  entries divided by the number of rows, times 100; that value is never 0.  (On a table
  without rows the percentage is NaN, which is not greater than zero.)
\<close>

theorem missing_values_only_nonzero:
  assumes "distinct (columns d)"
  shows "(n \<in> fst ` set (analyze_missing_values d) \<longleftrightarrow>
            (\<exists>s p. map_of d n = Some s \<and> missing_percentage d s = Some p \<and> 0 < p)) \<and>
         (\<forall>v. map_of (analyze_missing_values d) n = Some v \<longrightarrow>
            (\<exists>s. map_of d n = Some s \<and> len_df d \<noteq> 0 \<and>
                 v = Some (real (isnull_sum s) / real (len_df d) * 100) \<and> v \<noteq> Some 0))"
proof -
  have dist: "distinct (map fst d)" using assms by (simp add: columns_def)
  note L = map_of_missing[OF dist, of n]
  have keys: "n \<in> fst ` set (analyze_missing_values d) \<longleftrightarrow> map_of (analyze_missing_values d) n \<noteq> None"
    by (simp add: map_of_eq_None_iff)
  show ?thesis
  proof (cases "map_of d n")
    case None
    then show ?thesis using L keys by simp
  next
    case (Some s)
    show ?thesis
    proof (cases "missing_percentage d s")
      case None
      then show ?thesis using L keys Some by (simp add: fgt_def)
    next
      case (Some p)
      with \<open>map_of d n = Some s\<close> L keys show ?thesis
        by (auto simp: fgt_def missing_percentage_def split: if_splits)
    qed
  qed
qed

theorem missing_values_only_nonzero_witness:
  "distinct (columns df_missing) \<and>
   ''p'' \<in> fst ` set (analyze_missing_values df_missing) \<and>
   map_of (analyze_missing_values df_missing) ''p'' = Some (Some 25) \<and>
   ''q'' \<notin> fst ` set (analyze_missing_values df_missing)"
proof -
  have dist: "distinct (columns df_missing)"
    by (simp add: df_missing_def columns_def)
  have p: "map_of df_missing ''p'' = Some \<lparr>dtype = Float64, cells = [FloatV 1, NaN, FloatV 3, FloatV 4]\<rparr>"
    by (simp add: df_missing_def)
  have q: "map_of df_missing ''q'' = Some (int_series [7, 8, 9, 10])"
    by (simp add: df_missing_def)
  have pp: "missing_percentage df_missing \<lparr>dtype = Float64, cells = [FloatV 1, NaN, FloatV 3, FloatV 4]\<rparr> = Some 25"
    by (simp add: missing_percentage_def df_missing_def isnull_sum_def isna_def)
  have qp: "missing_percentage df_missing (int_series [7, 8, 9, 10]) = Some 0"
    by (simp add: missing_percentage_def df_missing_def isnull_sum_def isna_def int_series_def)
  note P = missing_values_only_nonzero[OF dist, of "''p''"]
  note Q = missing_values_only_nonzero[OF dist, of "''q''"]
  have 1: "''p'' \<in> fst ` set (analyze_missing_values df_missing)"
    using P p pp by simp
  have 2: "''q'' \<notin> fst ` set (analyze_missing_values df_missing)"
    using Q q qp by simp
  from 1 obtain v where v: "map_of (analyze_missing_values df_missing) ''p'' = Some v"
    by (metis map_of_eq_None_iff not_None_eq)
  with P p have "v = Some (real (isnull_sum \<lparr>dtype = Float64, cells = [FloatV 1, NaN, FloatV 3, FloatV 4]\<rparr>) / real (len_df df_missing) * 100)"
    by auto
  then have "v = Some 25" by (simp add: isnull_sum_def isna_def df_missing_def)
  with v dist 1 2 show ?thesis by simp
qed

section \<open>Outliers\<close>

text \<open>
  Claim C5.  The arithmetic is the program's float arithmetic \<open>ar\<close>, whatever its
  rounding.  On every table with distinct column names, an entry of the outlier report
  belongs to a numeric column; both quartiles of that column are numbers \<open>q1\<close> and
  \<open>q3\<close>, the 0.25 and 0.75 quantiles; the reported lower bound is \<open>q1\<close> minus
  1.5 times \<open>q3\<close> minus \<open>q1\<close> and the reported upper bound is \<open>q3\<close> plus 1.5
  times \<open>q3\<close> minus \<open>q1\<close>, each operation being the program's; the reported
  count is the number of rows whose value is strictly less than the lower bound or
  strictly greater than the upper bound, and it is positive; the percentage is the
  quotient of that count and the number of rows, times 100.  Conversely, a numeric column
  whose quantiles are computed has an entry exactly when one of its rows is strictly
  below the lower or strictly above the upper bound: with a flagged row it is reported,
  without one it does not appear.
\<close>

theorem outlier_report_bounds:
  assumes "distinct (columns d)" and "ar = arith pd"
  shows "(\<forall>e. map_of (fst (detect_outliers pd d)) col = Some e \<longrightarrow>
            col \<in> set (select_dtypes_number d) \<and>
            (\<exists>s q1 q3. map_of d col = Some s \<and>
               quantile pd s 0.25 = Inr (Some q1) \<and> quantile pd s 0.75 = Inr (Some q3) \<and>
               lower_bound e = Some (sub64 ar q1 (mul64 ar 1.5 (sub64 ar q3 q1))) \<and>
               upper_bound e = Some (add64 ar q3 (mul64 ar 1.5 (sub64 ar q3 q1))) \<and>
               total_outliers e =
                 length (filter (\<lambda>c. \<exists>v. cell_float64 ar c = Some v \<and>
                            (v < sub64 ar q1 (mul64 ar 1.5 (sub64 ar q3 q1)) \<or>
                             add64 ar q3 (mul64 ar 1.5 (sub64 ar q3 q1)) < v)) (cells s)) \<and>
               0 < total_outliers e \<and> len_df d \<noteq> 0 \<and>
               percentage e = mul64 ar (truediv ar (total_outliers e) (len_df d)) 100)) \<and>
         (\<forall>s Q1 Q3. col \<in> set (select_dtypes_number d) \<and> map_of d col = Some s \<and>
               length (cells s) = len_df d \<and>
               quantile pd s 0.25 = Inr Q1 \<and> quantile pd s 0.75 = Inr Q3 \<longrightarrow>
               ((\<exists>e. map_of (fst (detect_outliers pd d)) col = Some e) \<longleftrightarrow>
                (\<exists>c \<in> set (cells s).
                    flt (cell_float64 ar c) (fsub ar Q1 (fmul ar (Some 1.5) (fsub ar Q3 Q1))) \<or>
                    fgt (cell_float64 ar c) (fadd ar Q3 (fmul ar (Some 1.5) (fsub ar Q3 Q1))))))"
proof (intro conjI allI impI)
  fix e assume h: "map_of (fst (detect_outliers pd d)) col = Some e"
  note L = detect_outliers_lookup[OF assms(1), of pd col]
  from h L show mem: "col \<in> set (select_dtypes_number d)"
    by (cases "col \<in> set (select_dtypes_number d)") simp_all
  from h L mem have "column_outliers pd d col = Inr (Some e)"
    by (auto split: sum.splits option.splits)
  from column_outliers_SomeD[OF this assms(2)]
  show "\<exists>s q1 q3. map_of d col = Some s \<and>
               quantile pd s 0.25 = Inr (Some q1) \<and> quantile pd s 0.75 = Inr (Some q3) \<and>
               lower_bound e = Some (sub64 ar q1 (mul64 ar 1.5 (sub64 ar q3 q1))) \<and>
               upper_bound e = Some (add64 ar q3 (mul64 ar 1.5 (sub64 ar q3 q1))) \<and>
               total_outliers e =
                 length (filter (\<lambda>c. \<exists>v. cell_float64 ar c = Some v \<and>
                            (v < sub64 ar q1 (mul64 ar 1.5 (sub64 ar q3 q1)) \<or>
                             add64 ar q3 (mul64 ar 1.5 (sub64 ar q3 q1)) < v)) (cells s)) \<and>
               0 < total_outliers e \<and> len_df d \<noteq> 0 \<and>
               percentage e = mul64 ar (truediv ar (total_outliers e) (len_df d)) 100" .
next
  fix s Q1 Q3
  assume h: "col \<in> set (select_dtypes_number d) \<and> map_of d col = Some s \<and>
               length (cells s) = len_df d \<and>
               quantile pd s 0.25 = Inr Q1 \<and> quantile pd s 0.75 = Inr Q3"
  then have mem: "col \<in> set (select_dtypes_number d)" and s: "map_of d col = Some s"
    and len: "length (cells s) = len_df d"
    and Q1: "quantile pd s 0.25 = Inr Q1" and Q3: "quantile pd s 0.75 = Inr Q3" by simp_all
  note F = column_outliers_flagged_iff[OF s len Q1 Q3 assms(2)]
  have "(\<exists>e. map_of (fst (detect_outliers pd d)) col = Some e) \<longleftrightarrow>
        (\<exists>e. column_outliers pd d col = Inr (Some e))"
    using detect_outliers_lookup[OF assms(1), of pd col] mem
    by (auto split: sum.splits option.splits)
  with F show "(\<exists>e. map_of (fst (detect_outliers pd d)) col = Some e) \<longleftrightarrow>
                (\<exists>c \<in> set (cells s).
                    flt (cell_float64 ar c) (fsub ar Q1 (fmul ar (Some 1.5) (fsub ar Q3 Q1))) \<or>
                    fgt (cell_float64 ar c) (fadd ar Q3 (fmul ar (Some 1.5) (fsub ar Q3 Q1))))"
    by (simp add: is_outlier_def)
qed

theorem outlier_report_bounds_witness:
  "distinct (columns df_outlier) \<and>
   exact_arith = arith (pandas_model nan_kernel) \<and>
   map_of (fst (detect_outliers (pandas_model nan_kernel) df_outlier)) ''v'' =
     Some \<lparr>total_outliers = 1, percentage = 20, lower_bound = Some (- 1), upper_bound = Some 7\<rparr> \<and>
   ''v'' \<in> set (select_dtypes_number df_outlier) \<and>
   quantile (pandas_model nan_kernel) (int_series [1, 2, 3, 4, 100]) 0.25 = Inr (Some 2) \<and>
   quantile (pandas_model nan_kernel) (int_series [1, 2, 3, 4, 100]) 0.75 = Inr (Some 4) \<and>
   fgt (cell_float64 exact_arith (IntV 100)) (Some 7) \<and>
   map_of (fst (detect_outliers (pandas_model nan_kernel) df_outlier)) ''w'' = None"
proof -
  let ?pd = "pandas_model nan_kernel"
  have dist: "distinct (columns df_outlier)"
    by (simp add: df_outlier_def columns_def)
  have ar: "exact_arith = arith ?pd" by (simp add: pandas_model_def)
  have sel: "select_dtypes_number df_outlier = [''v'', ''w'']"
    by (simp add: select_dtypes_number_def df_outlier_def int_series_def is_number_def)
  have q1: "quantile ?pd (int_series [1, 2, 3, 4, 100]) 0.25 = Inr (Some 2)"
    and q3: "quantile ?pd (int_series [1, 2, 3, 4, 100]) 0.75 = Inr (Some 4)"
    by (simp_all add: eval_outliers)
  have w1: "quantile ?pd (int_series [5, 5, 5, 5, 5]) 0.25 = Inr (Some 5)"
    and w3: "quantile ?pd (int_series [5, 5, 5, 5, 5]) 0.75 = Inr (Some 5)"
    by (simp_all add: eval_outliers)
  have vl: "map_of df_outlier ''v'' = Some (int_series [1, 2, 3, 4, 100])"
    and wl: "map_of df_outlier ''w'' = Some (int_series [5, 5, 5, 5, 5])"
    by (simp_all add: df_outlier_def)
  have vlen: "length (cells (int_series [1, 2, 3, 4, 100])) = len_df df_outlier"
    and wlen: "length (cells (int_series [5, 5, 5, 5, 5])) = len_df df_outlier"
    by (simp_all add: df_outlier_def int_series_def)
  have big: "fgt (cell_float64 exact_arith (IntV 100)) (Some 7)"
    by (simp add: fgt_def exact_arith_def)
  have vflag: "\<exists>c \<in> set (cells (int_series [1, 2, 3, 4, 100])).
       flt (cell_float64 exact_arith c)
           (fsub exact_arith (Some 2) (fmul exact_arith (Some 1.5) (fsub exact_arith (Some 4) (Some 2)))) \<or>
       fgt (cell_float64 exact_arith c)
           (fadd exact_arith (Some 4) (fmul exact_arith (Some 1.5) (fsub exact_arith (Some 4) (Some 2))))"
    by (simp add: eval_outliers)
  have wn: "\<not> (\<exists>c \<in> set (cells (int_series [5, 5, 5, 5, 5])).
       flt (cell_float64 exact_arith c)
           (fsub exact_arith (Some 5) (fmul exact_arith (Some 1.5) (fsub exact_arith (Some 5) (Some 5)))) \<or>
       fgt (cell_float64 exact_arith c)
           (fadd exact_arith (Some 5) (fmul exact_arith (Some 1.5) (fsub exact_arith (Some 5) (Some 5)))))"
    by (simp add: eval_outliers)
  note T = outlier_report_bounds[OF dist ar]
  have memv: "''v'' \<in> set (select_dtypes_number df_outlier)"
    and memw: "''w'' \<in> set (select_dtypes_number df_outlier)" using sel by simp_all
  from conjunct2[OF T[of "''v''"]] memv vl vlen q1 q3 vflag
  obtain e where e: "map_of (fst (detect_outliers ?pd df_outlier)) ''v'' = Some e"
    by blast
  from conjunct1[OF T[of "''v''"]] e vl
  obtain a b where
    qa: "quantile ?pd (int_series [1, 2, 3, 4, 100]) 0.25 = Inr (Some a)"
    and qb: "quantile ?pd (int_series [1, 2, 3, 4, 100]) 0.75 = Inr (Some b)"
    and lo: "lower_bound e = Some (sub64 exact_arith a (mul64 exact_arith 1.5 (sub64 exact_arith b a)))"
    and up: "upper_bound e = Some (add64 exact_arith b (mul64 exact_arith 1.5 (sub64 exact_arith b a)))"
    and cnt: "total_outliers e =
                 length (filter (\<lambda>c. \<exists>v. cell_float64 exact_arith c = Some v \<and>
                            (v < sub64 exact_arith a (mul64 exact_arith 1.5 (sub64 exact_arith b a)) \<or>
                             add64 exact_arith b (mul64 exact_arith 1.5 (sub64 exact_arith b a)) < v))
                   (cells (int_series [1, 2, 3, 4, 100])))"
    and pc: "percentage e = mul64 exact_arith (truediv exact_arith (total_outliers e) (len_df df_outlier)) 100"
    by auto
  from qa q1 qb q3 have ab: "a = 2" "b = 4" by simp_all
  have lo': "lower_bound e = Some (- 1)" and up': "upper_bound e = Some 7"
    using lo up unfolding ab by (simp_all add: exact_arith_def)
  have cnt': "total_outliers e = 1"
    using cnt unfolding ab by (simp add: exact_arith_def int_series_def)
  have pc': "percentage e = 20"
    using pc unfolding cnt' by (simp add: exact_arith_def df_outlier_def int_series_def)
  have ev: "e = \<lparr>total_outliers = 1, percentage = 20, lower_bound = Some (- 1), upper_bound = Some 7\<rparr>"
    using lo' up' cnt' pc' by (cases e) simp
  from conjunct2[OF T[of "''w''"]] memw wl wlen w1 w3 wn
  have "\<not> (\<exists>e. map_of (fst (detect_outliers ?pd df_outlier)) ''w'' = Some e)"
    by blast
  then have rw: "map_of (fst (detect_outliers ?pd df_outlier)) ''w'' = None" by simp
  show ?thesis using dist ar e ev memv q1 q3 big rw by simp
qed

text \<open>
  Claim C9.  Let the computation for one numeric column of the table (as the basic
  statistics have left it) raise.  Then the analysis still returns all five sections:
  that column has no entry in the outlier report, the message naming the column and the
  exception is printed, every other numeric column has exactly the entry its own
  computation yields (none if it flags no row or raises as well), and the other four
  sections are what their computations yield.
\<close>

theorem outlier_failure_is_local:
  assumes "distinct (columns d0)"
    and "d = fst (snd (analyze_dataset pd d0))"
    and "col \<in> set (select_dtypes_number d)"
    and "column_outliers pd d col = Inl err"
  shows "map_of (outliers (fst (analyze_dataset pd d0))) col = None \<and>
         outlier_message col err \<in> set (snd (snd (analyze_dataset pd d0))) \<and>
         (\<forall>c \<in> set (select_dtypes_number d). c \<noteq> col \<longrightarrow>
            map_of (outliers (fst (analyze_dataset pd d0))) c =
              (case column_outliers pd d c of Inr (Some e) \<Rightarrow> Some e | _ \<Rightarrow> None)) \<and>
         basic_stats (fst (analyze_dataset pd d0)) = fst (get_basic_statistics pd d0) \<and>
         missing_values (fst (analyze_dataset pd d0)) = analyze_missing_values d \<and>
         correlations (fst (analyze_dataset pd d0)) = compute_correlations pd d \<and>
         column_types (fst (analyze_dataset pd d0)) = get_column_types d"
proof -
  have "d = map (\<lambda>(n, s). (n, to_numeric (floatify pd) s)) d0"
    using analyze_dataset_df[OF assms(1), of pd] assms(2) by simp
  then have dist: "distinct (columns d)"
    using assms(1) by (simp add: columns_coerced)
  note L = detect_outliers_failure_local[OF dist assms(3,4)]
  have o: "outliers (fst (analyze_dataset pd d0)) = fst (detect_outliers pd d)"
    and p: "snd (snd (analyze_dataset pd d0)) = snd (detect_outliers pd d)"
    unfolding assms(2) by (rule analyze_dataset_sections)+
  have m: "missing_values (fst (analyze_dataset pd d0)) = analyze_missing_values d"
    unfolding assms(2) by (rule analyze_dataset_missing)
  have c: "correlations (fst (analyze_dataset pd d0)) = compute_correlations pd d"
    unfolding assms(2) by (rule analyze_dataset_sections)
  have t: "column_types (fst (analyze_dataset pd d0)) = get_column_types d"
    unfolding assms(2) by (rule analyze_dataset_types)
  have b: "basic_stats (fst (analyze_dataset pd d0)) = fst (get_basic_statistics pd d0)"
    by (rule analyze_dataset_sections)
  from L show ?thesis unfolding o p using b m c t by simp
qed

theorem outlier_failure_is_local_witness:
  "distinct (columns df_outlier3) \<and>
   df_outlier3 = fst (snd (analyze_dataset pandas_failing df_outlier3)) \<and>
   ''v'' \<in> set (select_dtypes_number df_outlier3) \<and>
   column_outliers pandas_failing df_outlier3 ''v'' = Inl (Exception ''quantile failed'') \<and>
   map_of (outliers (fst (analyze_dataset pandas_failing df_outlier3))) ''v'' = None \<and>
   ''Could not detect outliers for column v: quantile failed''
     \<in> set (snd (snd (analyze_dataset pandas_failing df_outlier3))) \<and>
   map_of (outliers (fst (analyze_dataset pandas_failing df_outlier3))) ''z'' =
     Some \<lparr>total_outliers = 1, percentage = 20, lower_bound = Some 0, upper_bound = Some 0\<rparr> \<and>
   map_of (outliers (fst (analyze_dataset pandas_failing df_outlier3))) ''w'' = None"
proof -
  have dist: "distinct (columns df_outlier3)"
    by (simp add: df_outlier3_def df_outlier_def columns_def)
  have d: "df_outlier3 = fst (snd (analyze_dataset pandas_failing df_outlier3))"
    by code_simp
  have sel: "select_dtypes_number df_outlier3 = [''v'', ''w'', ''z'']"
    by (simp add: select_dtypes_number_def df_outlier3_def df_outlier_def int_series_def is_number_def)
  have mem: "''v'' \<in> set (select_dtypes_number df_outlier3)" using sel by simp
  have v: "column_outliers pandas_failing df_outlier3 ''v'' = Inl (Exception ''quantile failed'')"
    by (simp add: eval_outliers df_outlier3_def df_outlier_def)
  have w: "column_outliers pandas_failing df_outlier3 ''w'' = Inr None"
    by (simp add: eval_outliers df_outlier3_def df_outlier_def)
  have z: "column_outliers pandas_failing df_outlier3 ''z'' =
     Inr (Some \<lparr>total_outliers = 1, percentage = 20, lower_bound = Some 0, upper_bound = Some 0\<rparr>)"
    by (simp add: eval_outliers df_outlier3_def df_outlier_def)
  note T = outlier_failure_is_local[OF dist d mem v]
  have msg: "outlier_message ''v'' (Exception ''quantile failed'') =
     ''Could not detect outliers for column v: quantile failed''"
    by (simp add: outlier_message_def)
  from T have 1: "map_of (outliers (fst (analyze_dataset pandas_failing df_outlier3))) ''v'' = None"
    and 2: "outlier_message ''v'' (Exception ''quantile failed'')
              \<in> set (snd (snd (analyze_dataset pandas_failing df_outlier3)))"
    and 3: "\<forall>c \<in> set (select_dtypes_number df_outlier3). c \<noteq> ''v'' \<longrightarrow>
            map_of (outliers (fst (analyze_dataset pandas_failing df_outlier3))) c =
              (case column_outliers pandas_failing df_outlier3 c of Inr (Some e) \<Rightarrow> Some e | _ \<Rightarrow> None)"
    by blast+
  from 3 sel z have rz: "map_of (outliers (fst (analyze_dataset pandas_failing df_outlier3))) ''z'' =
     Some \<lparr>total_outliers = 1, percentage = 20, lower_bound = Some 0, upper_bound = Some 0\<rparr>"
    by simp
  from 3 sel w have rw: "map_of (outliers (fst (analyze_dataset pandas_failing df_outlier3))) ''w'' = None"
    by simp
  show ?thesis using dist d mem v 1 2 rz rw unfolding msg by blast
qed

section \<open>Narration\<close>

text \<open>
  Claim C3, as the code has it.  Suppose the last request the narration stage sends
  fails with a request exception (a transport error or an error status), the requests
  before it, if any, having raised other exceptions, which is the only way for the stage
  to send another request.  Then the stage returns normally and the report file holds the
  fallback report: the heading with the dataset name, the line with the row count, the
  line with the column count and the note that no detailed narrative could be generated.
  When the output directory can be created, the pipeline as a whole returns normally with
  that report file.  When instead three requests in a row raise an exception that is not
  a request exception, the attempts are exhausted: the stage raises \<^verbatim>\<open>RetryError\<close>
  after waits of 4 and 4, and writes nothing.
\<close>

theorem narration_fallback_or_retry_error:
  "(k < 3 \<and> (\<forall>j<k. other_failure env (requests_made st + j)) \<and>
    network_failure env (requests_made st + k) \<longrightarrow>
      fst (generate_narrative env a an st) = Inr () \<and>
      (\<exists>report.
         file_content (snd (generate_narrative env a an st)) (dataset_name a @ ''/README.md'')
           = Some report \<and>
         report =
           ''# Dataset Analysis for '' @ dataset_name a @ ''\<newline>\<newline>'' @
           ''Total Rows: '' @ show_nat (total_rows (basic_stats an)) @ ''\<newline>'' @
           ''Total Columns: '' @ show_nat (total_columns (basic_stats an)) @ ''\<newline>\<newline>'' @
           ''Automated analysis could not generate a detailed narrative.'' \<and>
         sublist (dataset_name a) report \<and>
         sublist (show_nat (total_rows (basic_stats an))) report \<and>
         sublist (show_nat (total_columns (basic_stats an))) report \<and>
         sublist ''Automated analysis could not generate a detailed narrative.'' report) \<and>
      (makedirs env (dataset_name a) = Inr () \<longrightarrow>
         fst (run_analysis env a st) = Inr () \<and>
         file_content (snd (run_analysis env a st)) (dataset_name a @ ''/README.md'') =
           Some (''# Dataset Analysis for '' @ dataset_name a @ ''\<newline>\<newline>'' @
                 ''Total Rows: '' @
                 show_nat (total_rows (basic_stats (fst (analyze_dataset (lib env) (df a))))) @
                 ''\<newline>'' @
                 ''Total Columns: '' @
                 show_nat (total_columns (basic_stats (fst (analyze_dataset (lib env) (df a))))) @
                 ''\<newline>\<newline>'' @
                 ''Automated analysis could not generate a detailed narrative.''))) \<and>
   ((\<forall>j<3. other_failure env (requests_made st + j)) \<longrightarrow>
      generate_narrative env a an st =
        (Inl RetryError,
         st\<lparr>requests_made := requests_made st + 3, slept := slept st @ [4, 4]\<rparr>))"
proof (intro conjI impI)
  assume h: "k < 3 \<and> (\<forall>j<k. other_failure env (requests_made st + j)) \<and>
             network_failure env (requests_made st + k)"
  then have k: "k < 3" and o: "\<forall>j<k. other_failure env (requests_made st + j)"
    and n: "network_failure env (requests_made st + k)" by simp_all
  note G = generate_narrative_network_failure[OF k]
  from G[OF o n, of a an]
  show "fst (generate_narrative env a an st) = Inr ()" by simp
  let ?report = "fallback_report (dataset_name a)
                   (total_rows (basic_stats an)) (total_columns (basic_stats an))"
  have c: "file_content (snd (generate_narrative env a an st)) (dataset_name a @ ''/README.md'')
             = Some ?report"
    using G[OF o n, of a an] by (simp add: readme_path_def)
  have lit: "?report =
           ''# Dataset Analysis for '' @ dataset_name a @ ''\<newline>\<newline>'' @
           ''Total Rows: '' @ show_nat (total_rows (basic_stats an)) @ ''\<newline>'' @
           ''Total Columns: '' @ show_nat (total_columns (basic_stats an)) @ ''\<newline>\<newline>'' @
           ''Automated analysis could not generate a detailed narrative.''"
    by (rule fallback_report_text)
  have note_text: "sublist ''Automated analysis could not generate a detailed narrative.'' ?report"
    using fallback_report_contains(4)[of "dataset_name a" "total_rows (basic_stats an)"
        "total_columns (basic_stats an)"]
    by (simp add: failure_note_def)
  show "\<exists>report.
         file_content (snd (generate_narrative env a an st)) (dataset_name a @ ''/README.md'')
           = Some report \<and>
         report =
           ''# Dataset Analysis for '' @ dataset_name a @ ''\<newline>\<newline>'' @
           ''Total Rows: '' @ show_nat (total_rows (basic_stats an)) @ ''\<newline>'' @
           ''Total Columns: '' @ show_nat (total_columns (basic_stats an)) @ ''\<newline>\<newline>'' @
           ''Automated analysis could not generate a detailed narrative.'' \<and>
         sublist (dataset_name a) report \<and>
         sublist (show_nat (total_rows (basic_stats an))) report \<and>
         sublist (show_nat (total_columns (basic_stats an))) report \<and>
         sublist ''Automated analysis could not generate a detailed narrative.'' report"
    using c lit note_text fallback_report_contains(1-3)
    by (intro exI[of _ ?report]) blast
  have run: "fst (run_analysis env a st) = Inr () \<and>
         file_content (snd (run_analysis env a st)) (dataset_name a @ ''/README.md'') =
           Some (''# Dataset Analysis for '' @ dataset_name a @ ''\<newline>\<newline>'' @
                 ''Total Rows: '' @
                 show_nat (total_rows (basic_stats (fst (analyze_dataset (lib env) (df a))))) @
                 ''\<newline>'' @
                 ''Total Columns: '' @
                 show_nat (total_columns (basic_stats (fst (analyze_dataset (lib env) (df a))))) @
                 ''\<newline>\<newline>'' @
                 ''Automated analysis could not generate a detailed narrative.'')"
    if mk: "makedirs env (dataset_name a) = Inr ()"
  proof -
    from run_analysis_unfold[OF mk, of st] obtain a' an' st2 where
      r: "run_analysis env a st = generate_narrative env a' an' st2"
      and nm: "dataset_name a' = dataset_name a"
      and q: "requests_made st2 = requests_made st"
      and an': "an' = fst (analyze_dataset (lib env) (df a))" by blast
    from o n q have "\<forall>j<k. other_failure env (requests_made st2 + j)"
      "network_failure env (requests_made st2 + k)" by simp_all
    from G[OF this, of a' an'] show ?thesis
      unfolding r nm an' by (simp add: readme_path_def fallback_report_text)
  qed
  show "fst (run_analysis env a st) = Inr ()" if "makedirs env (dataset_name a) = Inr ()"
    using run[OF that] by (rule conjunct1)
  show "file_content (snd (run_analysis env a st)) (dataset_name a @ ''/README.md'') =
           Some (''# Dataset Analysis for '' @ dataset_name a @ ''\<newline>\<newline>'' @
                 ''Total Rows: '' @
                 show_nat (total_rows (basic_stats (fst (analyze_dataset (lib env) (df a))))) @
                 ''\<newline>'' @
                 ''Total Columns: '' @
                 show_nat (total_columns (basic_stats (fst (analyze_dataset (lib env) (df a))))) @
                 ''\<newline>\<newline>'' @
                 ''Automated analysis could not generate a detailed narrative.'')"
    if "makedirs env (dataset_name a) = Inr ()"
    using run[OF that] by (rule conjunct2)
next
  assume "\<forall>j<3. other_failure env (requests_made st + j)"
  then show "generate_narrative env a an st =
        (Inl RetryError,
         st\<lparr>requests_made := requests_made st + 3, slept := slept st @ [4, 4]\<rparr>)"
    by (rule generate_narrative_exhausted)
qed

theorem narration_fallback_or_retry_error_witness:
  "(1::nat) < 3 \<and>
   other_failure (env_of df_missing endpoint_bad_then_down) 0 \<and>
   network_failure (env_of df_missing endpoint_bad_then_down) 1 \<and>
   fst (generate_narrative (env_of df_missing endpoint_bad_then_down) example_analyzer
          example_analysis init_state) = Inr () \<and>
   file_content (snd (generate_narrative (env_of df_missing endpoint_bad_then_down) example_analyzer
          example_analysis init_state)) ''sales/README.md'' =
     Some ''# Dataset Analysis for sales\<newline>\<newline>Total Rows: 4\<newline>Total Columns: 2\<newline>\<newline>Automated analysis could not generate a detailed narrative.'' \<and>
   makedirs (env_of df_missing endpoint_bad_then_down) (dataset_name example_analyzer) = Inr () \<and>
   fst (run_analysis (env_of df_missing endpoint_bad_then_down) example_analyzer init_state) = Inr () \<and>
   other_failure (env_of df_missing endpoint_bad_body) 0 \<and>
   other_failure (env_of df_missing endpoint_bad_body) 1 \<and>
   other_failure (env_of df_missing endpoint_bad_body) 2 \<and>
   generate_narrative (env_of df_missing endpoint_bad_body) example_analyzer
       example_analysis init_state =
     (Inl RetryError, \<lparr>stdout = [], writes = [], requests_made = 3, slept = [4, 4]\<rparr>)"
proof -
  let ?env = "env_of df_missing endpoint_bad_then_down"
  let ?bad = "env_of df_missing endpoint_bad_body"
  have k: "(1::nat) < 3" by simp
  have o0: "other_failure ?env 0"
    by (simp add: other_failure_def env_of_def endpoint_bad_then_down_def
        request_narrative_def is_request_exception_def)
  have n1: "network_failure ?env 1"
    by (simp add: network_failure_def env_of_def endpoint_bad_then_down_def
        request_narrative_def is_request_exception_def)
  have r0: "requests_made init_state = 0" by (simp add: init_state_def)
  have o: "\<forall>j<1. other_failure ?env (requests_made init_state + j)"
    using o0 r0 by simp
  have n: "network_failure ?env (requests_made init_state + 1)"
    using n1 r0 by simp
  have mk: "makedirs ?env (dataset_name example_analyzer) = Inr ()"
    by (simp add: env_of_def)
  have rows: "total_rows (basic_stats example_analysis) = 4"
    and cols: "total_columns (basic_stats example_analysis) = 2"
    by (simp_all add: example_analysis_def analyze_dataset_def get_basic_statistics_def Let_def
       df_missing_def columns_def select_dtypes_number_def is_number_def int_series_def
       getitem_def setitem_def to_numeric_def isna_all_def isna_def
       pandas_model_def case_prod_unfold)
  have name: "dataset_name example_analyzer = ''sales''"
    by (simp add: example_analyzer_def)
  have s4: "show_nat 4 = ''4''" and s2: "show_nat 2 = ''2''"
    by (simp_all add: digit_char_def)
  have b: "other_failure ?bad j" for j
    by (simp add: other_failure_def env_of_def endpoint_bad_body_def
        request_narrative_def is_request_exception_def)
  note T = narration_fallback_or_retry_error[of _ ?env init_state example_analyzer example_analysis]
  from mp[OF conjunct1[OF T[of 1]]] k o n
  have A: "fst (generate_narrative ?env example_analyzer example_analysis init_state) = Inr ()"
    and B: "\<exists>report.
         file_content (snd (generate_narrative ?env example_analyzer example_analysis init_state))
           (dataset_name example_analyzer @ ''/README.md'') = Some report \<and>
         report =
           ''# Dataset Analysis for '' @ dataset_name example_analyzer @ ''\<newline>\<newline>'' @
           ''Total Rows: '' @ show_nat (total_rows (basic_stats example_analysis)) @ ''\<newline>'' @
           ''Total Columns: '' @ show_nat (total_columns (basic_stats example_analysis)) @
           ''\<newline>\<newline>'' @
           ''Automated analysis could not generate a detailed narrative.'' \<and>
         sublist (dataset_name example_analyzer) report \<and>
         sublist (show_nat (total_rows (basic_stats example_analysis))) report \<and>
         sublist (show_nat (total_columns (basic_stats example_analysis))) report \<and>
         sublist ''Automated analysis could not generate a detailed narrative.'' report"
    and C: "makedirs ?env (dataset_name example_analyzer) = Inr () \<longrightarrow>
         fst (run_analysis ?env example_analyzer init_state) = Inr () \<and>
         file_content (snd (run_analysis ?env example_analyzer init_state))
           (dataset_name example_analyzer @ ''/README.md'') =
           Some (''# Dataset Analysis for '' @ dataset_name example_analyzer @ ''\<newline>\<newline>'' @
                 ''Total Rows: '' @
                 show_nat (total_rows (basic_stats (fst (analyze_dataset (lib ?env) (df example_analyzer))))) @
                 ''\<newline>'' @
                 ''Total Columns: '' @
                 show_nat (total_columns (basic_stats (fst (analyze_dataset (lib ?env) (df example_analyzer))))) @
                 ''\<newline>\<newline>'' @
                 ''Automated analysis could not generate a detailed narrative.'')"
    by blast+
  from B have B': "file_content (snd (generate_narrative ?env example_analyzer example_analysis init_state))
       ''sales/README.md'' =
     Some ''# Dataset Analysis for sales\<newline>\<newline>Total Rows: 4\<newline>Total Columns: 2\<newline>\<newline>Automated analysis could not generate a detailed narrative.''"
    unfolding rows cols name s4 s2 by auto
  from C mk have C': "fst (run_analysis ?env example_analyzer init_state) = Inr ()" by blast
  have "\<forall>j<3. other_failure ?bad (requests_made init_state + j)" using b by simp
  from mp[OF conjunct2[OF narration_fallback_or_retry_error
        [of 0 ?bad init_state example_analyzer example_analysis]] this]
  have D: "generate_narrative ?bad example_analyzer example_analysis init_state =
     (Inl RetryError, \<lparr>stdout = [], writes = [], requests_made = 3, slept = [4, 4]\<rparr>)"
    by (simp add: init_state_def)
  show ?thesis using k o0 n1 A B' mk C' b D by simp
qed

text \<open>
  Claim C3 as stated fails on the following run: every response of the endpoint has a
  body without the expected entry, so each of the three attempts raises an exception that
  is not a request exception.  The narration has then failed for good, yet no fallback
  report is written and \<^verbatim>\<open>RetryError\<close> escapes the stage and the pipeline.
\<close>

theorem narration_exhausted_writes_no_report:
  "fst (generate_narrative (env_of df_missing endpoint_bad_body) example_analyzer
          example_analysis init_state) = Inl RetryError \<and>
   requests_made (snd (generate_narrative (env_of df_missing endpoint_bad_body) example_analyzer
          example_analysis init_state)) = 3 \<and>
   file_content (snd (generate_narrative (env_of df_missing endpoint_bad_body) example_analyzer
          example_analysis init_state)) ''sales/README.md'' = None \<and>
   fst (run_analysis (env_of df_missing endpoint_bad_body) example_analyzer init_state)
     = Inl RetryError \<and>
   file_content (snd (run_analysis (env_of df_missing endpoint_bad_body) example_analyzer
          init_state)) ''sales/README.md'' = None"
  by code_simp

text \<open>
  Claim C1, at a run where the first request fails and the second would succeed.  The
  first request raises a request exception; it is caught inside the decorated function,
  which writes the fallback report and returns normally, so the retry decorator sees no
  exception: no second request is sent, nothing is slept, and the report file holds the
  fallback, not the text the second request would have returned.
\<close>

theorem narration_does_not_retry_request_failure:
  "request_narrative (endpoint_fail_then_ok 0) = Inl (RequestException ''ConnectionError'') \<and>
   request_narrative (endpoint_fail_then_ok 1) = Inr ''A story about the data.'' \<and>
   main (env_of df_missing endpoint_fail_then_ok) example_argv init_state =
     (Returned,
      \<lparr>stdout = [''Successfully read CSV with ascii encoding'',
                 ''Error generating narrative: ConnectionError''],
       writes = [(''sales/analysis_plots.png'', ''png''),
                 (''sales/README.md'', fallback_report ''sales'' 4 2)],
       requests_made = 1, slept = []\<rparr>)"
  by code_simp

section \<open>The command line\<close>

text \<open>
  Claim C10, as the code has it.  Without a positional argument the program prints the
  usage line and exits with code 1.  With one, an exception of the ingestion propagates;
  when the ingestion succeeds, either the creation of the output directory fails and
  that exception propagates, or the pipeline returns with the report file written, or
  three requests in a row have raised an exception that is not a request exception and
  the retry decorator's \<^verbatim>\<open>RetryError\<close> propagates.
\<close>

theorem main_outcomes:
  "(length argv < 2 \<longrightarrow> main env argv st = (SysExit 1, print usage st)) \<and>
   (2 \<le> length argv \<longrightarrow>
      (case init env (argv ! 1) st of
         (Inl e, st1) \<Rightarrow> main env argv st = (Raised e, st1)
       | (Inr a, st1) \<Rightarrow>
           (\<exists>e. makedirs env (dataset_name a) = Inl e \<and> main env argv st = (Raised e, st1)) \<or>
           (fst (main env argv st) = Returned \<and>
            file_content (snd (main env argv st)) (readme_path (dataset_name a)) \<noteq> None) \<or>
           (fst (main env argv st) = Raised RetryError \<and>
            (\<forall>j<3. other_failure env (requests_made st + j)))))"
proof (intro conjI impI)
  assume "length argv < 2"
  then show "main env argv st = (SysExit 1, print usage st)" by (simp add: main_def)
next
  assume len: "2 \<le> length argv"
  obtain r st1 where i: "init env (argv ! 1) st = (r, st1)" by (cases "init env (argv ! 1) st")
  have q: "requests_made st1 = requests_made st"
    by (metis requests_made_init i snd_conv)
  show "case init env (argv ! 1) st of
         (Inl e, st1) \<Rightarrow> main env argv st = (Raised e, st1)
       | (Inr a, st1) \<Rightarrow>
           (\<exists>e. makedirs env (dataset_name a) = Inl e \<and> main env argv st = (Raised e, st1)) \<or>
           (fst (main env argv st) = Returned \<and>
            file_content (snd (main env argv st)) (readme_path (dataset_name a)) \<noteq> None) \<or>
           (fst (main env argv st) = Raised RetryError \<and>
            (\<forall>j<3. other_failure env (requests_made st + j)))"
  proof (cases r)
    case (Inl e)
    with i len show ?thesis by (simp add: main_def Let_def)
  next
    case (Inr a)
    have m: "main env argv st =
        (case run_analysis env a st1 of (Inl e, st2) \<Rightarrow> (Raised e, st2) | (Inr u, st2) \<Rightarrow> (Returned, st2))"
      using i Inr len by (simp add: main_def Let_def)
    obtain x st2 where ra: "run_analysis env a st1 = (x, st2)" by (cases "run_analysis env a st1")
    from run_analysis_outcomes[of env a st1]
    have "(\<exists>e. makedirs env (dataset_name a) = Inl e \<and> main env argv st = (Raised e, st1)) \<or>
           (fst (main env argv st) = Returned \<and>
            file_content (snd (main env argv st)) (readme_path (dataset_name a)) \<noteq> None) \<or>
           (fst (main env argv st) = Raised RetryError \<and>
            (\<forall>j<3. other_failure env (requests_made st + j)))"
      unfolding m ra q by (cases x) auto
    with i Inr show ?thesis by simp
  qed
qed

theorem main_outcomes_witness:
  "length [''autolysis.py''] < 2 \<and>
   main (env_of df_missing endpoint_down) [''autolysis.py''] init_state =
     (SysExit 1, print usage init_state) \<and>
   2 \<le> length example_argv \<and>
   fst (main (env_of df_missing endpoint_down) example_argv init_state) = Returned \<and>
   file_content (snd (main (env_of df_missing endpoint_down) example_argv init_state))
     ''sales/README.md'' \<noteq> None"
proof -
  let ?env = "env_of df_missing endpoint_down"
  have l1: "length [''autolysis.py''] < 2" by simp
  have l2: "2 \<le> length example_argv" by (simp add: example_argv_def)
  have i: "init ?env (example_argv ! 1) init_state =
        (Inr example_analyzer, print ''Successfully read CSV with ascii encoding'' init_state)"
    by code_simp
  have mk: "makedirs ?env (dataset_name example_analyzer) = Inr ()"
    by (simp add: env_of_def)
  have no: "\<not> other_failure ?env (requests_made init_state + 0)"
    by (simp add: other_failure_def env_of_def endpoint_down_def init_state_def
        request_narrative_def is_request_exception_def)
  have name: "readme_path (dataset_name example_analyzer) = ''sales/README.md''"
    by (simp add: example_analyzer_def readme_path_def)
  from mp[OF conjunct1[OF main_outcomes[of "[''autolysis.py'']" ?env init_state]] l1]
  have A: "main ?env [''autolysis.py''] init_state = (SysExit 1, print usage init_state)" .
  from mp[OF conjunct2[OF main_outcomes[of example_argv ?env init_state]] l2]
  have "case init ?env (example_argv ! 1) init_state of
         (Inl e, st1) \<Rightarrow> main ?env example_argv init_state = (Raised e, st1)
       | (Inr a, st1) \<Rightarrow>
           (\<exists>e. makedirs ?env (dataset_name a) = Inl e \<and> main ?env example_argv init_state = (Raised e, st1)) \<or>
           (fst (main ?env example_argv init_state) = Returned \<and>
            file_content (snd (main ?env example_argv init_state)) (readme_path (dataset_name a)) \<noteq> None) \<or>
           (fst (main ?env example_argv init_state) = Raised RetryError \<and>
            (\<forall>j<3. other_failure ?env (requests_made init_state + j)))" .
  then have "(\<exists>e. makedirs ?env (dataset_name example_analyzer) = Inl e \<and>
               main ?env example_argv init_state =
                 (Raised e, print ''Successfully read CSV with ascii encoding'' init_state)) \<or>
           (fst (main ?env example_argv init_state) = Returned \<and>
            file_content (snd (main ?env example_argv init_state))
              (readme_path (dataset_name example_analyzer)) \<noteq> None) \<or>
           (fst (main ?env example_argv init_state) = Raised RetryError \<and>
            (\<forall>j<3. other_failure ?env (requests_made init_state + j)))"
    unfolding i by simp
  with mk no have B: "fst (main ?env example_argv init_state) = Returned \<and>
            file_content (snd (main ?env example_argv init_state))
              (readme_path (dataset_name example_analyzer)) \<noteq> None"
    by (metis Inl_Inr_False zero_less_numeral)
  from l1 A l2 B show ?thesis unfolding name by blast
qed

text \<open>
  Claim C10 as stated fails on the following run: the argument is present, the ingestion
  succeeds, and every response of the endpoint has a body without the expected entry.
  The program neither runs to completion nor propagates an ingestion failure: it raises
  \<^verbatim>\<open>RetryError\<close> after three requests, and no report file is written.
\<close>

theorem main_propagates_retry_error:
  "2 \<le> length example_argv \<and>
   fst (init (env_of df_missing endpoint_bad_body) (example_argv ! 1) init_state) =
     Inr example_analyzer \<and>
   main (env_of df_missing endpoint_bad_body) example_argv init_state =
     (Raised RetryError,
      \<lparr>stdout = [''Successfully read CSV with ascii encoding''],
       writes = [(''sales/analysis_plots.png'', ''png'')],
       requests_made = 3, slept = [4, 4]\<rparr>)"
  by code_simp

section \<open>Ingestion without a detected encoding\<close>

text \<open>
  Claim C4, at a file for which the detector reports no encoding and on which every
  parse attempt raises a decode error.  The candidates are \<^verbatim>\<open>None\<close> followed by the
  six fallback encodings; all are tried; the message of the terminal error is then built
  with \<^verbatim>\<open>', '.join\<close> over a list that holds \<^verbatim>\<open>None\<close>, which raises a
  \<^verbatim>\<open>TypeError\<close> that names no encoding.
\<close>

theorem ingestion_without_detected_encoding:
  "encodings_to_try None =
     [None, Some ''utf-8'', Some ''latin-1'', Some ''iso-8859-1'', Some ''cp1252'',
      Some ''utf-16'', Some ''ascii''] \<and>
   read_csv_robust (Inr None) read_csv_unreadable =
     (Inl (TypeError ''sequence item 0: expected str instance, NoneType found''),
      [''Failed to read with None encoding: invalid start byte'',
       ''Failed to read with utf-8 encoding: invalid start byte'',
       ''Failed to read with latin-1 encoding: Error tokenizing data'',
       ''Failed to read with iso-8859-1 encoding: Error tokenizing data'',
       ''Failed to read with cp1252 encoding: invalid start byte'',
       ''Failed to read with utf-16 encoding: invalid start byte'',
       ''Failed to read with ascii encoding: invalid start byte''])"
  by code_simp

section \<open>Correlations after the coercion\<close>

text \<open>
  Claim C7, at a table with one integer column and one text column, for every Pearson
  kernel.  The basic statistics report one numeric column, yet the correlation section is
  not empty: the coercion has turned the text column into an all-missing float column,
  and the correlation is computed over both.
\<close>

theorem correlations_one_numeric_one_text:
  "numeric_columns (basic_stats (fst (analyze_dataset (pandas_model pe) df_one_numeric_one_text)))
     = [''x''] \<and>
   correlations (fst (analyze_dataset (pandas_model pe) df_one_numeric_one_text)) =
     [(''x'', [(''x'', pe (int_series [1, 2, 3]) (int_series [1, 2, 3])),
               (''s'', pe \<lparr>dtype = Float64, cells = [NaN, NaN, NaN]\<rparr> (int_series [1, 2, 3]))]),
      (''s'', [(''x'', pe (int_series [1, 2, 3]) \<lparr>dtype = Float64, cells = [NaN, NaN, NaN]\<rparr>),
               (''s'', pe \<lparr>dtype = Float64, cells = [NaN, NaN, NaN]\<rparr>
                         \<lparr>dtype = Float64, cells = [NaN, NaN, NaN]\<rparr>)])]"
  by code_simp

text \<open>
  Claim C8, at a table with two text columns none of whose values is a number, for every
  Pearson kernel.  The analysis returns; the row and column counts are 2 and 2, no column
  is numeric and the summary is empty; yet the correlation section is not empty: it is
  the matrix over the two coerced columns.
\<close>

theorem analysis_of_two_text_columns:
  "basic_stats (fst (analyze_dataset (pandas_model pe) df_two_text)) =
     \<lparr>total_rows = 2, total_columns = 2, numeric_columns = [], summary = []\<rparr> \<and>
   correlations (fst (analyze_dataset (pandas_model pe) df_two_text)) =
     [(''a'', [(''a'', pe \<lparr>dtype = Float64, cells = [NaN, NaN]\<rparr> \<lparr>dtype = Float64, cells = [NaN, NaN]\<rparr>),
               (''b'', pe \<lparr>dtype = Float64, cells = [NaN, NaN]\<rparr> \<lparr>dtype = Float64, cells = [NaN, NaN]\<rparr>)]),
      (''b'', [(''a'', pe \<lparr>dtype = Float64, cells = [NaN, NaN]\<rparr> \<lparr>dtype = Float64, cells = [NaN, NaN]\<rparr>),
               (''b'', pe \<lparr>dtype = Float64, cells = [NaN, NaN]\<rparr> \<lparr>dtype = Float64, cells = [NaN, NaN]\<rparr>)])]"
  by code_simp

end
